theory Spec2Isabelle
  imports Complex_Main
begin

section \<open>Shared vocabulary: errors, principals, the store\<close>

text \<open>
  The routers are FastAPI handlers over a Supabase (PostgREST) client. A handler either
  returns \<open>success_response(...)\<close> or raises; a raise that happens after a write leaves the
  write in place (there is no transaction), so every handler is modelled as a function from
  the store to a result together with the store afterwards.
\<close>

datatype error =
    HTTPException int string  \<comment> \<open>status code, detail\<close>
  | TypeError                 \<comment> \<open>Python's own exception, surfaced as a 500\<close>
  | APIError                  \<comment> \<open>the storage layer refused the statement\<close>

text \<open>
  Every table carries a nullable \<open>tenant_id\<close> column, and \<open>.eq("tenant_id", tenant_id)\<close>
  compares it with what \<open>get_tenant_id\<close> returned. The handlers below all sit behind a role
  guard that excludes \<open>super_admin\<close>, so the value compared is never \<open>None\<close> there.
\<close>

text \<open>The dict that \<open>get_current_user\<close> injects (only the keys the handlers read).\<close>

record user =
  u_user_id :: string
  u_role :: string
  u_tenant_id :: "string option"

text \<open>\<open>app/core/security.py\<close>: the role guard. The detail is an f-string over the role and
  the \<open>repr\<close> of the list; \<open>repr\<close> is written for plain role names.\<close>

definition quote :: "string \<Rightarrow> string" where
  "quote s = CHR 0x27 # s @ [CHR 0x27]"

fun join_comma :: "string list \<Rightarrow> string" where
  "join_comma [] = []"
| "join_comma [x] = x"
| "join_comma (x # y # ys) = x @ '', '' @ join_comma (y # ys)"

definition repr_list :: "string list \<Rightarrow> string" where
  "repr_list xs = ''['' @ join_comma (map quote xs) @ '']''"

definition require_role :: "string list \<Rightarrow> user \<Rightarrow> error + user" where
  "require_role allowed_roles u =
     (if u_role u \<notin> set allowed_roles
      then Inl (HTTPException 403
             (''Role '' @ quote (u_role u) @ '' not authorized. Required: '' @ repr_list allowed_roles))
      else Inr u)"

text \<open>\<open>app/core/middleware.py\<close>: \<open>get_tenant_id\<close>. \<open>not tenant_id\<close> is true of \<open>None\<close> and
  of the empty string.\<close>

definition get_tenant_id :: "user \<Rightarrow> error + string option" where
  "get_tenant_id u =
     (let tenant_id = u_tenant_id u in
      if u_role u = ''super_admin'' then Inr tenant_id
      else if tenant_id = None \<or> tenant_id = Some [] then
        Inl (HTTPException 403 ''No tenant context. User not assigned to an institution.'')
      else Inr tenant_id)"

text \<open>
  A filtered \<open>update(...).eq(...).execute()\<close>: every row matching the filter is rewritten in
  place, and the rewritten rows are what \<open>result.data\<close> holds.
\<close>

definition update_where :: "('r \<Rightarrow> bool) \<Rightarrow> ('r \<Rightarrow> 'r) \<Rightarrow> 'r list \<Rightarrow> 'r list \<times> 'r list" where
  "update_where P f rows = (map (\<lambda>r. if P r then f r else r) rows, map f (filter P rows))"

section \<open>The workflow tables\<close>

record od_request =
  od_id :: string
  od_tenant_id :: "string option"
  od_student_id :: string
  od_subject_id :: string
  od_date :: string
  od_end_date :: "string option"
  od_reason :: string
  od_type :: string
  od_document_url :: "string option"
  od_status :: string
  od_faculty_action_by :: "string option"
  od_faculty_action_at :: "string option"
  od_hod_action_by :: "string option"
  od_hod_action_at :: "string option"
  od_rejection_reason :: "string option"
  od_created_at :: int

text \<open>\<open>batch_students\<close>: the advisor assignment lives here (\<open>faculty_advisor_id\<close>).\<close>

record batch_student =
  bs_tenant_id :: "string option"
  bs_batch_id :: string
  bs_student_id :: string
  bs_faculty_advisor_id :: "string option"

text \<open>\<open>student_enrollments\<close> as \<open>apply_od\<close> selects it: \<open>program_id\<close> and the inner-joined
  semester's \<open>semester_number\<close>.\<close>

record student_enrollment =
  en_tenant_id :: "string option"
  en_student_id :: string
  en_program_id :: "string option"
  en_semester_number :: "int option"

record subject =
  sub_id :: string
  sub_tenant_id :: "string option"
  sub_program_id :: string
  sub_semester :: int

text \<open>The request bodies of \<open>app/schemas/workflow.py\<close>; dates are carried in ISO form.\<close>

record ODApply =
  a_subject_id :: string
  a_date :: string
  a_end_date :: "string option"
  a_reason :: string
  a_od_type :: string
  a_document_url :: "string option"

record ODAction =
  act_action :: string
  act_rejection_reason :: "string option"

text \<open>Internal marks: one row per (tenant, subject, student). \<open>marks\<close> is a float that
  the handlers only store, never compute with.\<close>

record internal_mark =
  im_tenant_id :: "string option"
  im_subject_id :: string
  im_student_id :: string
  im_marks :: real
  im_max_marks :: int
  im_status :: string
  im_submitted_by :: "string option"
  im_approved_by :: "string option"
  im_approved_at :: "string option"
  im_locked_by :: "string option"
  im_locked_at :: "string option"

record MarkEntry =
  me_student_id :: string
  me_marks :: real
  me_max_marks :: int

record MarksSubmit =
  ms_subject_id :: string
  ms_entries :: "MarkEntry list"

record MarksAction =
  ma_action :: string

text \<open>
  The scheduling tables. A row is the dict the client returns, so a column the handler reads
  with \<open>.get(key, default)\<close> has three shapes: the key is absent, the key holds \<open>None\<close>, or
  it holds a value (the default only covers the first).
\<close>

datatype 'a field = Absent | Null | Val 'a

record batch =
  b_id :: string
  b_tenant_id :: "string option"
  b_program_id :: string
  b_semester :: "int option"  \<comment> \<open>\<open>None\<close>: the row has no \<open>semester\<close> key\<close>

record faculty_assignment =
  fa_tenant_id :: "string option"
  fa_faculty_id :: string
  fa_subject_id :: string
  fa_hours_per_week :: "int field"

record period_template =
  pt_tenant_id :: "string option"
  pt_period_number :: int
  pt_start_time :: string
  pt_end_time :: string
  pt_is_break :: bool

record classroom =
  c_id :: string
  c_tenant_id :: "string option"
  c_capacity :: int
  c_is_available :: bool

record timetable_slot =
  ts_tenant_id :: "string option"
  ts_batch_id :: string
  ts_subject_id :: string
  ts_faculty_id :: string
  ts_classroom_id :: "string option"
  ts_day_of_week :: int
  ts_period_number :: int
  ts_start_time :: string
  ts_end_time :: string
  ts_slot_type :: string

record TimetableGenerate =
  tg_batch_id :: string
  tg_force_regenerate :: bool

text \<open>The tables of the store.\<close>

record db =
  od_requests :: "od_request list"
  batch_students :: "batch_student list"
  student_enrollments :: "student_enrollment list"
  subjects :: "subject list"
  internal_marks :: "internal_mark list"
  batches :: "batch list"
  faculty_assignments :: "faculty_assignment list"
  period_templates :: "period_template list"
  classrooms :: "classroom list"
  timetable_slots :: "timetable_slot list"

section \<open>On-duty requests\<close>

text \<open>\<open>app/routers/student.py\<close>, \<open>apply_od\<close>: the subject auto-fill.\<close>

definition od_autofill_enrolled :: "db \<Rightarrow> string option \<Rightarrow> string \<Rightarrow> string \<Rightarrow> string" where
  "od_autofill_enrolled db tenant_id uid subject_id =
     (case take 1 (filter (\<lambda>e. en_tenant_id e = tenant_id \<and> en_student_id e = uid)
                     (student_enrollments db)) of
        [] \<Rightarrow> subject_id
      | ext # _ \<Rightarrow>
          (case (en_program_id ext, en_semester_number ext) of
             (Some prog, Some sem_num) \<Rightarrow>
               (if prog \<noteq> [] \<and> sem_num \<noteq> 0 then
                  (case take 1 (filter (\<lambda>s. sub_tenant_id s = tenant_id \<and>
                                   sub_program_id s = prog \<and> sub_semester s = sem_num) (subjects db)) of
                     [] \<Rightarrow> subject_id
                   | s # _ \<Rightarrow> sub_id s)
                else subject_id)
           | _ \<Rightarrow> subject_id))"

definition od_resolve_subject :: "db \<Rightarrow> string option \<Rightarrow> string \<Rightarrow> string \<Rightarrow> error + string" where
  "od_resolve_subject db tenant_id uid subject_id =
     (if subject_id \<noteq> [] then Inr subject_id
      else
        (let subject_id' = od_autofill_enrolled db tenant_id uid subject_id in
         if subject_id' \<noteq> [] then Inr subject_id'
         else
           (case take 1 (filter (\<lambda>s. sub_tenant_id s = tenant_id) (subjects db)) of
              s # _ \<Rightarrow> Inr (sub_id s)
            | [] \<Rightarrow> Inl (HTTPException 400 ''System Error: No subjects exist in the institution.''))))"

text \<open>\<open>apply_od\<close>. The row's \<open>id\<close> and \<open>created_at\<close> are generated by the store and are
  parameters here; the columns the insert does not set start as null.\<close>

definition initial_status :: "string \<Rightarrow> string" where
  "initial_status t = (if t \<in> set [''special'', ''medical''] then ''pending_hod'' else ''pending_faculty'')"

definition apply_od ::
  "db \<Rightarrow> user \<Rightarrow> ODApply \<Rightarrow> string \<Rightarrow> int \<Rightarrow> (error + od_request list) \<times> db" where
  "apply_od db u body new_id created =
     (case require_role [''student''] u of Inl e \<Rightarrow> (Inl e, db) | Inr user \<Rightarrow>
     (case get_tenant_id user of Inl e \<Rightarrow> (Inl e, db) | Inr tenant_id \<Rightarrow>
     (case od_resolve_subject db tenant_id (u_user_id user) (a_subject_id body) of
        Inl e \<Rightarrow> (Inl e, db)
      | Inr subject_id \<Rightarrow>
          (let row = \<lparr> od_id = new_id, od_tenant_id = tenant_id,
                       od_student_id = u_user_id user, od_subject_id = subject_id,
                       od_date = a_date body, od_end_date = a_end_date body,
                       od_reason = a_reason body, od_type = a_od_type body,
                       od_document_url = a_document_url body,
                       od_status = initial_status (a_od_type body),
                       od_faculty_action_by = None, od_faculty_action_at = None,
                       od_hod_action_by = None, od_hod_action_at = None,
                       od_rejection_reason = None, od_created_at = created \<rparr>
           in (Inr [row], db\<lparr> od_requests := od_requests db @ [row] \<rparr>)))))"

text \<open>\<open>app/routers/faculty.py\<close>, \<open>get_pending_od\<close>: the requests a faculty member is shown
  are those of the students whose \<open>faculty_advisor_id\<close> is that member, newest first.\<close>

definition advisee_ids :: "db \<Rightarrow> string option \<Rightarrow> string \<Rightarrow> string list" where
  "advisee_ids d tenant_id uid =
     map bs_student_id
       (filter (\<lambda>s. bs_tenant_id s = tenant_id \<and> bs_faculty_advisor_id s = Some uid) (batch_students d))"

definition get_pending_od :: "db \<Rightarrow> user \<Rightarrow> error + od_request list" where
  "get_pending_od d u =
     (case require_role [''faculty''] u of Inl e \<Rightarrow> Inl e | Inr user \<Rightarrow>
     (case get_tenant_id user of Inl e \<Rightarrow> Inl e | Inr tenant_id \<Rightarrow>
        (let student_ids = advisee_ids d tenant_id (u_user_id user) in
         if student_ids = [] then Inr []
         else Inr (sort_key (\<lambda>r. - od_created_at r)
                (filter (\<lambda>r. od_tenant_id r = tenant_id \<and> od_status r = ''pending_faculty'' \<and>
                              od_student_id r \<in> set student_ids) (od_requests d))))))"

text \<open>\<open>faculty_od_action\<close> and \<open>hod_od_action\<close> (\<open>app/routers/hod.py\<close>): build the update,
  then one conditional update on id, tenant and the expected source status. \<open>now\<close> is
  \<open>datetime.utcnow().isoformat()\<close>.\<close>

definition faculty_update_data :: "ODAction \<Rightarrow> string \<Rightarrow> string \<Rightarrow> error + (od_request \<Rightarrow> od_request)" where
  "faculty_update_data body uid now =
     (if act_action body = ''approve'' then
        Inr (\<lambda>r. r\<lparr> od_status := ''pending_hod'', od_faculty_action_by := Some uid,
                     od_faculty_action_at := Some now \<rparr>)
      else if act_action body = ''reject'' then
        Inr (\<lambda>r. r\<lparr> od_status := ''rejected'', od_faculty_action_by := Some uid,
                     od_faculty_action_at := Some now,
                     od_rejection_reason := act_rejection_reason body \<rparr>)
      else Inl (HTTPException 400 ''Invalid action''))"

definition faculty_od_action ::
  "db \<Rightarrow> user \<Rightarrow> string \<Rightarrow> ODAction \<Rightarrow> string \<Rightarrow> (error + od_request list) \<times> db" where
  "faculty_od_action d u oid body now =
     (case require_role [''faculty''] u of Inl e \<Rightarrow> (Inl e, d) | Inr user \<Rightarrow>
     (case get_tenant_id user of Inl e \<Rightarrow> (Inl e, d) | Inr tenant_id \<Rightarrow>
     (case faculty_update_data body (u_user_id user) now of Inl e \<Rightarrow> (Inl e, d)
      | Inr update_data \<Rightarrow>
          (let (rows, data) =
                 update_where (\<lambda>r. od_id r = oid \<and> od_tenant_id r = tenant_id \<and>
                                     od_status r = ''pending_faculty'') update_data (od_requests d)
           in (Inr data, d\<lparr> od_requests := rows \<rparr>)))))"

definition hod_update_data :: "ODAction \<Rightarrow> string \<Rightarrow> string \<Rightarrow> error + (od_request \<Rightarrow> od_request)" where
  "hod_update_data body uid now =
     (if act_action body = ''approve'' then
        Inr (\<lambda>r. r\<lparr> od_status := ''approved'', od_hod_action_by := Some uid,
                     od_hod_action_at := Some now \<rparr>)
      else if act_action body = ''reject'' then
        Inr (\<lambda>r. r\<lparr> od_status := ''rejected'', od_hod_action_by := Some uid,
                     od_hod_action_at := Some now,
                     od_rejection_reason := act_rejection_reason body \<rparr>)
      else Inl (HTTPException 400 ''Invalid action''))"

definition hod_od_action ::
  "db \<Rightarrow> user \<Rightarrow> string \<Rightarrow> ODAction \<Rightarrow> string \<Rightarrow> (error + od_request list) \<times> db" where
  "hod_od_action d u oid body now =
     (case require_role [''hod''] u of Inl e \<Rightarrow> (Inl e, d) | Inr user \<Rightarrow>
     (case get_tenant_id user of Inl e \<Rightarrow> (Inl e, d) | Inr tenant_id \<Rightarrow>
     (case hod_update_data body (u_user_id user) now of Inl e \<Rightarrow> (Inl e, d)
      | Inr update_data \<Rightarrow>
          (let (rows, data) =
                 update_where (\<lambda>r. od_id r = oid \<and> od_tenant_id r = tenant_id \<and>
                                     od_status r = ''pending_hod'') update_data (od_requests d)
           in (Inr data, d\<lparr> od_requests := rows \<rparr>)))))"

section \<open>Internal marks\<close>

text \<open>
  \<open>submit_marks\<close> (\<open>app/routers/faculty.py\<close>): one upsert with
  \<open>on_conflict="tenant_id,subject_id,student_id"\<close>. A record whose key is already in the table
  overwrites the columns it carries (marks, max marks, status, submitter) whatever the row's
  status is, and leaves the other columns; a record with a new key is inserted. The store
  refuses a statement that names one key twice.
\<close>

definition same_key :: "internal_mark \<Rightarrow> internal_mark \<Rightarrow> bool" where
  "same_key a b \<longleftrightarrow> im_tenant_id a = im_tenant_id b \<and> im_subject_id a = im_subject_id b \<and>
                   im_student_id a = im_student_id b"

definition merge_record :: "internal_mark \<Rightarrow> internal_mark \<Rightarrow> internal_mark" where
  "merge_record r row = row\<lparr> im_marks := im_marks r, im_max_marks := im_max_marks r,
                             im_status := im_status r, im_submitted_by := im_submitted_by r \<rparr>"

definition upsert1 :: "internal_mark list \<Rightarrow> internal_mark \<Rightarrow> internal_mark list" where
  "upsert1 rows r =
     (if \<exists>row \<in> set rows. same_key r row
      then map (\<lambda>row. if same_key r row then merge_record r row else row) rows
      else rows @ [r])"

definition upserted :: "internal_mark list \<Rightarrow> internal_mark \<Rightarrow> internal_mark" where
  "upserted rows r = (case find (same_key r) rows of Some row \<Rightarrow> merge_record r row | None \<Rightarrow> r)"

definition upsert :: "internal_mark list \<Rightarrow> internal_mark list \<Rightarrow> error + (internal_mark list \<times> internal_mark list)" where
  "upsert rows records =
     (if \<not> distinct (map (\<lambda>r. (im_tenant_id r, im_subject_id r, im_student_id r)) records)
      then Inl APIError
      else Inr (foldl upsert1 rows records, map (upserted rows) records))"

definition submit_record :: "string option \<Rightarrow> string \<Rightarrow> string \<Rightarrow> MarkEntry \<Rightarrow> internal_mark" where
  "submit_record tenant_id subject_id uid entry =
     \<lparr> im_tenant_id = tenant_id, im_subject_id = subject_id, im_student_id = me_student_id entry,
       im_marks = me_marks entry, im_max_marks = me_max_marks entry, im_status = ''submitted'',
       im_submitted_by = Some uid, im_approved_by = None, im_approved_at = None,
       im_locked_by = None, im_locked_at = None \<rparr>"

definition submit_marks :: "db \<Rightarrow> user \<Rightarrow> MarksSubmit \<Rightarrow> (error + nat) \<times> db" where
  "submit_marks d u body =
     (case require_role [''faculty''] u of Inl e \<Rightarrow> (Inl e, d) | Inr user \<Rightarrow>
     (case get_tenant_id user of Inl e \<Rightarrow> (Inl e, d) | Inr tenant_id \<Rightarrow>
        (let records = map (submit_record tenant_id (ms_subject_id body) (u_user_id user)) (ms_entries body)
         in case upsert (internal_marks d) records of
              Inl e \<Rightarrow> (Inl e, d)
            | Inr (rows, data) \<Rightarrow> (Inr (length data), d\<lparr> internal_marks := rows \<rparr>))))"

text \<open>\<open>approve_marks\<close> (\<open>app/routers/hod.py\<close>): approve or reject every submitted row of
  the subject.\<close>

definition marks_update_data :: "MarksAction \<Rightarrow> string \<Rightarrow> string \<Rightarrow> error + (internal_mark \<Rightarrow> internal_mark)" where
  "marks_update_data body uid now =
     (if ma_action body = ''approve'' then
        Inr (\<lambda>r. r\<lparr> im_status := ''approved'', im_approved_by := Some uid, im_approved_at := Some now \<rparr>)
      else if ma_action body = ''reject'' then
        Inr (\<lambda>r. r\<lparr> im_status := ''draft'' \<rparr>)
      else Inl (HTTPException 400 ''Invalid action''))"

definition approve_marks ::
  "db \<Rightarrow> user \<Rightarrow> string \<Rightarrow> MarksAction \<Rightarrow> string \<Rightarrow> (error + internal_mark list) \<times> db" where
  "approve_marks d u subject_id body now =
     (case require_role [''hod'', ''admin''] u of Inl e \<Rightarrow> (Inl e, d) | Inr user \<Rightarrow>
     (case get_tenant_id user of Inl e \<Rightarrow> (Inl e, d) | Inr tenant_id \<Rightarrow>
     (case marks_update_data body (u_user_id user) now of Inl e \<Rightarrow> (Inl e, d)
      | Inr update_data \<Rightarrow>
          (let (rows, data) =
                 update_where (\<lambda>r. im_tenant_id r = tenant_id \<and> im_subject_id r = subject_id \<and>
                                     im_status r = ''submitted'') update_data (internal_marks d)
           in (Inr data, d\<lparr> internal_marks := rows \<rparr>)))))"

text \<open>\<open>lock_marks\<close> (\<open>app/routers/admin.py\<close>): "Lock all approved marks for a subject.
  Irreversible".\<close>

definition lock_marks ::
  "db \<Rightarrow> user \<Rightarrow> string \<Rightarrow> string \<Rightarrow> (error + internal_mark list) \<times> db" where
  "lock_marks d u subject_id now =
     (case require_role [''admin''] u of Inl e \<Rightarrow> (Inl e, d) | Inr user \<Rightarrow>
     (case get_tenant_id user of Inl e \<Rightarrow> (Inl e, d) | Inr tenant_id \<Rightarrow>
        (let (rows, data) =
               update_where (\<lambda>r. im_tenant_id r = tenant_id \<and> im_subject_id r = subject_id \<and>
                                   im_status r = ''approved'')
                 (\<lambda>r. r\<lparr> im_status := ''locked'', im_locked_by := Some (u_user_id user),
                           im_locked_at := Some now \<rparr>) (internal_marks d)
         in (Inr data, d\<lparr> internal_marks := rows \<rparr>))))"

section \<open>Timetable generation\<close>

text \<open>
  \<open>app/routers/institution.py\<close>, \<open>generate_timetable\<close>. The three occupancy dicts are keyed
  by f-strings \<open>f"{id}-{day}-{pnum}"\<close>; \<open>str_int\<close> is Python's \<open>str\<close> on an \<open>int\<close>.
\<close>

definition digit_char :: "nat \<Rightarrow> char" where
  "digit_char n = ''0123456789'' ! n"

fun str_nat :: "nat \<Rightarrow> string" where
  "str_nat n = (if n < 10 then [digit_char n] else str_nat (n div 10) @ [digit_char (n mod 10)])"

declare str_nat.simps [simp del]

definition str_int :: "int \<Rightarrow> string" where
  "str_int i = (if i < 0 then CHR ''-'' # str_nat (nat (- i)) else str_nat (nat i))"

definition occ_key :: "string \<Rightarrow> int \<Rightarrow> int \<Rightarrow> string" where
  "occ_key x day pnum = x @ ''-'' @ str_int day @ ''-'' @ str_int pnum"

text \<open>The state of one run: the slots created so far, the three dicts, and the
  \<open>timetable_slots\<close> table the inserts go to.\<close>

record gen_state =
  created_slots :: "timetable_slot list"
  faculty_occupied :: "string \<rightharpoonup> bool"
  room_occupied :: "string \<rightharpoonup> bool"
  batch_occupied :: "string \<rightharpoonup> bool"
  gs_table :: "timetable_slot list"

text \<open>Python truthiness of a nullable string: \<open>None\<close> and \<open>""\<close> are false.\<close>

definition truthy :: "string option \<Rightarrow> bool" where
  "truthy x = (case x of None \<Rightarrow> False | Some s \<Rightarrow> s \<noteq> [])"

text \<open>The loop over \<open>existing.data\<close>.\<close>

definition mark_existing :: "gen_state \<Rightarrow> timetable_slot \<Rightarrow> gen_state" where
  "mark_existing st s =
     (let key_f = occ_key (ts_faculty_id s) (ts_day_of_week s) (ts_period_number s);
          key_b = occ_key (ts_batch_id s) (ts_day_of_week s) (ts_period_number s);
          st1 = st\<lparr> faculty_occupied := (faculty_occupied st)(key_f \<mapsto> True) \<rparr>;
          st2 = (case ts_classroom_id s of
                   Some r \<Rightarrow>
                     (if r \<noteq> [] then
                        st1\<lparr> room_occupied := (room_occupied st1)
                               (occ_key r (ts_day_of_week s) (ts_period_number s) \<mapsto> True) \<rparr>
                      else st1)
                 | None \<Rightarrow> st1)
      in st2\<lparr> batch_occupied := (batch_occupied st2)(key_b \<mapsto> True) \<rparr>)"

definition index_existing :: "timetable_slot list \<Rightarrow> timetable_slot list \<Rightarrow> gen_state" where
  "index_existing tbl existing =
     foldl mark_existing
       \<lparr> created_slots = [], faculty_occupied = Map.empty, room_occupied = Map.empty,
         batch_occupied = Map.empty, gs_table = tbl \<rparr> existing"

text \<open>"Find an available room": the first room, in the order retrieved, whose key is free.\<close>

fun find_room :: "(string \<rightharpoonup> bool) \<Rightarrow> classroom list \<Rightarrow> int \<Rightarrow> int \<Rightarrow> string option" where
  "find_room ro [] day pnum = None"
| "find_room ro (room # rooms) day pnum =
     (if occ_key (c_id room) day pnum \<notin> dom ro then Some (c_id room)
      else find_room ro rooms day pnum)"

text \<open>
  The body of the innermost loop for one (day, period) candidate. \<open>ins tbl slot\<close> says
  whether the store accepts the insert of \<open>slot\<close> into the table \<open>tbl\<close>; a refused insert
  raises, and the \<open>except Exception: continue\<close> skips the candidate with nothing marked.
\<close>

definition slot_data ::
  "string option \<Rightarrow> string \<Rightarrow> faculty_assignment \<Rightarrow> string option \<Rightarrow> int \<Rightarrow> period_template \<Rightarrow>
   timetable_slot" where
  "slot_data tenant_id batch_id asgn room_id day period =
     \<lparr> ts_tenant_id = tenant_id, ts_batch_id = batch_id, ts_subject_id = fa_subject_id asgn,
       ts_faculty_id = fa_faculty_id asgn, ts_classroom_id = room_id, ts_day_of_week = day,
       ts_period_number = pt_period_number period, ts_start_time = pt_start_time period,
       ts_end_time = pt_end_time period, ts_slot_type = ''lecture'' \<rparr>"

definition place ::
  "(timetable_slot list \<Rightarrow> timetable_slot \<Rightarrow> bool) \<Rightarrow> string option \<Rightarrow> string \<Rightarrow>
   faculty_assignment \<Rightarrow> classroom list \<Rightarrow> int \<Rightarrow> period_template \<Rightarrow>
   int \<times> gen_state \<Rightarrow> int \<times> gen_state" where
  "place ins tenant_id batch_id asgn rooms day period acc =
     (let allocated = fst acc; st = snd acc;
          pnum = pt_period_number period;
          fid = fa_faculty_id asgn;
          key_f = occ_key fid day pnum;
          key_b = occ_key batch_id day pnum
      in if key_f \<in> dom (faculty_occupied st) \<or> key_b \<in> dom (batch_occupied st) then acc
         else
           (let room_id = find_room (room_occupied st) rooms day pnum;
                slot = slot_data tenant_id batch_id asgn room_id day period
            in if ins (gs_table st) slot then
                 (allocated + 1,
                  st\<lparr> gs_table := gs_table st @ [slot],
                      created_slots := created_slots st @ [slot],
                      faculty_occupied := (faculty_occupied st)(key_f \<mapsto> True),
                      batch_occupied := (batch_occupied st)(key_b \<mapsto> True),
                      room_occupied :=
                        (if truthy room_id
                         then (room_occupied st)(occ_key (the room_id) day pnum \<mapsto> True)
                         else room_occupied st) \<rparr>)
               else acc))"

text \<open>\<open>for period in periods\<close> and \<open>for day in days\<close>, each with its \<open>break\<close> once the
  hours are allocated.\<close>

fun period_loop ::
  "(timetable_slot list \<Rightarrow> timetable_slot \<Rightarrow> bool) \<Rightarrow> string option \<Rightarrow> string \<Rightarrow>
   faculty_assignment \<Rightarrow> int \<Rightarrow> classroom list \<Rightarrow> int \<Rightarrow> period_template list \<Rightarrow>
   int \<times> gen_state \<Rightarrow> int \<times> gen_state" where
  "period_loop ins tenant_id batch_id asgn hrs_needed rooms day [] acc = acc"
| "period_loop ins tenant_id batch_id asgn hrs_needed rooms day (period # periods) acc =
     (if fst acc \<ge> hrs_needed then acc
      else period_loop ins tenant_id batch_id asgn hrs_needed rooms day periods
             (place ins tenant_id batch_id asgn rooms day period acc))"

fun day_loop ::
  "(timetable_slot list \<Rightarrow> timetable_slot \<Rightarrow> bool) \<Rightarrow> string option \<Rightarrow> string \<Rightarrow>
   faculty_assignment \<Rightarrow> int \<Rightarrow> classroom list \<Rightarrow> period_template list \<Rightarrow> int list \<Rightarrow>
   int \<times> gen_state \<Rightarrow> int \<times> gen_state" where
  "day_loop ins tenant_id batch_id asgn hrs_needed rooms periods [] acc = acc"
| "day_loop ins tenant_id batch_id asgn hrs_needed rooms periods (day # days) acc =
     (if fst acc \<ge> hrs_needed then acc
      else day_loop ins tenant_id batch_id asgn hrs_needed rooms periods days
             (period_loop ins tenant_id batch_id asgn hrs_needed rooms day periods acc))"

text \<open>\<open>asgn.get("hours_per_week", 4)\<close>. A \<open>None\<close> makes the first \<open>allocated >= hrs_needed\<close>
  raise \<open>TypeError\<close>, outside the \<open>try\<close>.\<close>

definition hrs_needed_of :: "faculty_assignment \<Rightarrow> int option" where
  "hrs_needed_of asgn =
     (case fa_hours_per_week asgn of Absent \<Rightarrow> Some 4 | Null \<Rightarrow> None | Val h \<Rightarrow> Some h)"

definition days :: "int list" where
  "days = [1, 2, 3, 4, 5, 6]"

fun assign_loop ::
  "(timetable_slot list \<Rightarrow> timetable_slot \<Rightarrow> bool) \<Rightarrow> string option \<Rightarrow> string \<Rightarrow>
   classroom list \<Rightarrow> period_template list \<Rightarrow> faculty_assignment list \<Rightarrow> gen_state \<Rightarrow>
   error option \<times> gen_state" where
  "assign_loop ins tenant_id batch_id rooms periods [] st = (None, st)"
| "assign_loop ins tenant_id batch_id rooms periods (asgn # rest) st =
     (case hrs_needed_of asgn of
        None \<Rightarrow> (Some TypeError, st)
      | Some hrs_needed \<Rightarrow>
          assign_loop ins tenant_id batch_id rooms periods rest
            (snd (day_loop ins tenant_id batch_id asgn hrs_needed rooms periods days (0, st))))"

text \<open>The queries, in the order the handler issues them. Ids are primary keys, so
  \<open>maybe_single\<close> is the first match.\<close>

definition semester_subject_ids :: "db \<Rightarrow> string option \<Rightarrow> int \<Rightarrow> string list" where
  "semester_subject_ids d tenant_id semester =
     map sub_id (filter (\<lambda>s. sub_tenant_id s = tenant_id \<and> sub_semester s = semester) (subjects d))"

definition selected_assignments :: "db \<Rightarrow> string option \<Rightarrow> string list \<Rightarrow> faculty_assignment list" where
  "selected_assignments d tenant_id subject_ids =
     filter (\<lambda>a. fa_tenant_id a = tenant_id \<and> fa_subject_id a \<in> set subject_ids)
       (faculty_assignments d)"

definition selected_periods :: "db \<Rightarrow> string option \<Rightarrow> period_template list" where
  "selected_periods d tenant_id =
     (let templates = sort_key pt_period_number
            (filter (\<lambda>p. pt_tenant_id p = tenant_id \<and> \<not> pt_is_break p) (period_templates d))
      in if templates = []
         then sort_key pt_period_number (filter (\<lambda>p. \<not> pt_is_break p) (period_templates d))
         else templates)"

definition available_rooms :: "db \<Rightarrow> string option \<Rightarrow> classroom list" where
  "available_rooms d tenant_id =
     sort_key (\<lambda>r. - c_capacity r)
       (filter (\<lambda>r. c_tenant_id r = tenant_id \<and> c_is_available r) (classrooms d))"

definition clear_batch :: "db \<Rightarrow> string option \<Rightarrow> string \<Rightarrow> db" where
  "clear_batch d tenant_id batch_id =
     d\<lparr> timetable_slots :=
          filter (\<lambda>s. \<not> (ts_tenant_id s = tenant_id \<and> ts_batch_id s = batch_id)) (timetable_slots d) \<rparr>"

definition existing_slots :: "db \<Rightarrow> string option \<Rightarrow> timetable_slot list" where
  "existing_slots d tenant_id = filter (\<lambda>s. ts_tenant_id s = tenant_id) (timetable_slots d)"

record gen_response =
  allocated_slots :: nat
  total_assignments :: nat
  slots :: "timetable_slot list"

definition generate_timetable ::
  "(timetable_slot list \<Rightarrow> timetable_slot \<Rightarrow> bool) \<Rightarrow> db \<Rightarrow> user \<Rightarrow> TimetableGenerate \<Rightarrow>
   (error + gen_response) \<times> db" where
  "generate_timetable ins d u body =
     (case require_role [''admin''] u of Inl e \<Rightarrow> (Inl e, d) | Inr user \<Rightarrow>
     (case get_tenant_id user of Inl e \<Rightarrow> (Inl e, d) | Inr tenant_id \<Rightarrow>
       (let batch_id = tg_batch_id body in
        case find (\<lambda>b. b_id b = batch_id \<and> b_tenant_id b = tenant_id) (batches d) of
          None \<Rightarrow> (Inl (HTTPException 404 ''Batch not found''), d)
        | Some batch \<Rightarrow>
           (let semester = (case b_semester batch of None \<Rightarrow> 1 | Some n \<Rightarrow> n);
                d1 = (if tg_force_regenerate body then clear_batch d tenant_id batch_id else d);
                subject_ids = semester_subject_ids d1 tenant_id semester
            in if subject_ids = [] then
                 (Inl (HTTPException 400
                         (''No subjects found for this batch'' @ [CHR 0x27] @ ''s semester'')), d1)
               else
                 (let assignments = selected_assignments d1 tenant_id subject_ids;
                      periods = selected_periods d1 tenant_id
                  in if periods = [] then
                       (Inl (HTTPException 400 ''No period templates set up''), d1)
                     else
                       (let rooms = available_rooms d1 tenant_id;
                            existing = existing_slots d1 tenant_id;
                            st0 = index_existing (timetable_slots d1) existing;
                            run = assign_loop ins tenant_id batch_id rooms periods assignments st0;
                            d2 = d1\<lparr> timetable_slots := gs_table (snd run) \<rparr>
                        in case fst run of
                             Some e \<Rightarrow> (Inl e, d2)
                           | None \<Rightarrow>
                               (Inr \<lparr> allocated_slots = length (created_slots (snd run)),
                                      total_assignments = length assignments,
                                      slots = created_slots (snd run) \<rparr>, d2)))))))"

section \<open>The uniqueness requirement on slots\<close>

text \<open>
  Two slots clash when they sit at the same day and period and share the faculty member, or
  the batch, or a non-null classroom. A list of slots is conflict free when no two of its
  entries clash.
\<close>

definition clash :: "timetable_slot \<Rightarrow> timetable_slot \<Rightarrow> bool" where
  "clash a b \<longleftrightarrow>
     ts_day_of_week a = ts_day_of_week b \<and> ts_period_number a = ts_period_number b \<and>
     (ts_faculty_id a = ts_faculty_id b \<or> ts_batch_id a = ts_batch_id b \<or>
      (ts_classroom_id a \<noteq> None \<and> ts_classroom_id a = ts_classroom_id b))"

fun conflict_free :: "timetable_slot list \<Rightarrow> bool" where
  "conflict_free [] = True"
| "conflict_free (s # ss) = (list_all (\<lambda>t. \<not> clash s t) ss \<and> conflict_free ss)"

text \<open>A slot is marked in a state when its three keys are in the dicts (the room key only
  for a classroom id that Python takes as true).\<close>

definition marked :: "gen_state \<Rightarrow> timetable_slot \<Rightarrow> bool" where
  "marked st s \<longleftrightarrow>
     occ_key (ts_faculty_id s) (ts_day_of_week s) (ts_period_number s) \<in> dom (faculty_occupied st) \<and>
     occ_key (ts_batch_id s) (ts_day_of_week s) (ts_period_number s) \<in> dom (batch_occupied st) \<and>
     (case ts_classroom_id s of
        None \<Rightarrow> True
      | Some r \<Rightarrow> r = [] \<or> occ_key r (ts_day_of_week s) (ts_period_number s) \<in> dom (room_occupied st))"

text \<open>The invariant of a run that started from the table \<open>tbl\<close> and the slots \<open>existing\<close>.\<close>

definition run_inv ::
  "timetable_slot list \<Rightarrow> timetable_slot list \<Rightarrow> string option \<Rightarrow> gen_state \<Rightarrow> bool" where
  "run_inv tbl existing tenant_id st \<longleftrightarrow>
     gs_table st = tbl @ created_slots st \<and>
     conflict_free (created_slots st) \<and>
     list_all (\<lambda>a. list_all (\<lambda>b. \<not> clash a b) (created_slots st)) existing \<and>
     list_all (marked st) (existing @ created_slots st) \<and>
     list_all (\<lambda>s. ts_tenant_id s = tenant_id) (created_slots st)"

text \<open>
  On a grid with no bookings a run only ever marks keys of slots it created itself, and every
  slot gets the first available room (if there is one). \<open>fresh_inv\<close> is the invariant of
  such a run for one assignment.
\<close>

definition room0 :: "classroom list \<Rightarrow> string option" where
  "room0 rooms = (case rooms of [] \<Rightarrow> None | r # _ \<Rightarrow> Some (c_id r))"

definition fresh_inv :: "string \<Rightarrow> string \<Rightarrow> classroom list \<Rightarrow> gen_state \<Rightarrow> bool" where
  "fresh_inv fid batch_id rooms st \<longleftrightarrow>
     (\<forall>k \<in> dom (faculty_occupied st). \<exists>s \<in> set (created_slots st).
          k = occ_key fid (ts_day_of_week s) (ts_period_number s)) \<and>
     (\<forall>k \<in> dom (batch_occupied st). \<exists>s \<in> set (created_slots st).
          k = occ_key batch_id (ts_day_of_week s) (ts_period_number s)) \<and>
     (\<forall>k \<in> dom (room_occupied st). \<exists>s \<in> set (created_slots st). \<exists>r.
          room0 rooms = Some r \<and> k = occ_key r (ts_day_of_week s) (ts_period_number s)) \<and>
     (\<forall>s \<in> set (created_slots st). 0 \<le> ts_day_of_week s)"

section \<open>Example stores\<close>

text \<open>Tenant \<open>t1\<close>: student \<open>s1\<close> is the advisee of faculty \<open>f1\<close>; \<open>f2\<close> is another faculty
  member of the same tenant.\<close>

definition ex_student :: user where
  "ex_student = \<lparr> u_user_id = ''s1'', u_role = ''student'', u_tenant_id = Some ''t1'' \<rparr>"

definition ex_faculty :: user where
  "ex_faculty = \<lparr> u_user_id = ''f1'', u_role = ''faculty'', u_tenant_id = Some ''t1'' \<rparr>"

definition ex_faculty2 :: user where
  "ex_faculty2 = \<lparr> u_user_id = ''f2'', u_role = ''faculty'', u_tenant_id = Some ''t1'' \<rparr>"

definition ex_hod :: user where
  "ex_hod = \<lparr> u_user_id = ''h1'', u_role = ''hod'', u_tenant_id = Some ''t1'' \<rparr>"

definition ex_admin :: user where
  "ex_admin = \<lparr> u_user_id = ''a1'', u_role = ''admin'', u_tenant_id = Some ''t1'' \<rparr>"

definition ex_od :: "string \<Rightarrow> string \<Rightarrow> string \<Rightarrow> od_request" where
  "ex_od oid ty st =
     \<lparr> od_id = oid, od_tenant_id = Some ''t1'', od_student_id = ''s1'', od_subject_id = ''sub1'',
       od_date = ''2026-03-02'', od_end_date = None, od_reason = ''symposium'', od_type = ty,
       od_document_url = None, od_status = st, od_faculty_action_by = None,
       od_faculty_action_at = None, od_hod_action_by = None, od_hod_action_at = None,
       od_rejection_reason = None, od_created_at = 5 \<rparr>"

definition ex_mark :: "string \<Rightarrow> real \<Rightarrow> string \<Rightarrow> internal_mark" where
  "ex_mark student m st =
     \<lparr> im_tenant_id = Some ''t1'', im_subject_id = ''sub1'', im_student_id = student, im_marks = m,
       im_max_marks = 100, im_status = st, im_submitted_by = Some ''f1'', im_approved_by = None,
       im_approved_at = None, im_locked_by = None, im_locked_at = None \<rparr>"

definition ex_db :: "od_request list \<Rightarrow> internal_mark list \<Rightarrow> db" where
  "ex_db ods ms =
     \<lparr> od_requests = ods,
       batch_students = [\<lparr> bs_tenant_id = Some ''t1'', bs_batch_id = ''b1'', bs_student_id = ''s1'',
                           bs_faculty_advisor_id = Some ''f1'' \<rparr>],
       student_enrollments = [],
       subjects = [\<lparr> sub_id = ''sub1'', sub_tenant_id = Some ''t1'', sub_program_id = ''p1'',
                     sub_semester = 3 \<rparr>],
       internal_marks = ms, batches = [], faculty_assignments = [], period_templates = [],
       classrooms = [], timetable_slots = [] \<rparr>"

definition ex_apply :: "string \<Rightarrow> ODApply" where
  "ex_apply ty = \<lparr> a_subject_id = ''sub1'', a_date = ''2026-03-02'', a_end_date = None,
                   a_reason = ''symposium'', a_od_type = ty, a_document_url = None \<rparr>"


text \<open>Scheduling data of tenant \<open>t1\<close>: batch \<open>b1\<close> of program \<open>p1\<close> in semester 3, one
  room, and period templates numbered from 1.\<close>

definition ex_period :: "int \<Rightarrow> string \<Rightarrow> string \<Rightarrow> period_template" where
  "ex_period n s e = \<lparr> pt_tenant_id = Some ''t1'', pt_period_number = n, pt_start_time = s,
                       pt_end_time = e, pt_is_break = False \<rparr>"

definition ex_periods :: "period_template list" where
  "ex_periods = [ex_period 1 ''09:00'' ''09:50'', ex_period 2 ''10:00'' ''10:50'',
                 ex_period 3 ''11:00'' ''11:50'', ex_period 4 ''12:00'' ''12:50'',
                 ex_period 5 ''14:00'' ''14:50'', ex_period 6 ''15:00'' ''15:50'']"

definition ex_subject :: "string \<Rightarrow> string \<Rightarrow> int \<Rightarrow> subject" where
  "ex_subject sid prog sem = \<lparr> sub_id = sid, sub_tenant_id = Some ''t1'', sub_program_id = prog,
                               sub_semester = sem \<rparr>"

definition ex_assignment :: "string \<Rightarrow> string \<Rightarrow> int field \<Rightarrow> faculty_assignment" where
  "ex_assignment fid sid h = \<lparr> fa_tenant_id = Some ''t1'', fa_faculty_id = fid, fa_subject_id = sid,
                               fa_hours_per_week = h \<rparr>"

definition ex_room :: classroom where
  "ex_room = \<lparr> c_id = ''r1'', c_tenant_id = Some ''t1'', c_capacity = 60, c_is_available = True \<rparr>"

definition ex_slot :: "string \<Rightarrow> string \<Rightarrow> string \<Rightarrow> string option \<Rightarrow> int \<Rightarrow> period_template \<Rightarrow> timetable_slot" where
  "ex_slot bid sid fid room day p = slot_data (Some ''t1'') bid (ex_assignment fid sid Absent) room day p"

definition ex_tt_db ::
  "subject list \<Rightarrow> faculty_assignment list \<Rightarrow> period_template list \<Rightarrow> timetable_slot list \<Rightarrow> db" where
  "ex_tt_db subs fas pts sl =
     \<lparr> od_requests = [], batch_students = [], student_enrollments = [], subjects = subs,
       internal_marks = [],
       batches = [\<lparr> b_id = ''b1'', b_tenant_id = Some ''t1'', b_program_id = ''p1'',
                    b_semester = Some 3 \<rparr>],
       faculty_assignments = fas, period_templates = pts, classrooms = [ex_room],
       timetable_slots = sl \<rparr>"

definition accept_all :: "timetable_slot list \<Rightarrow> timetable_slot \<Rightarrow> bool" where
  "accept_all tbl s = True"

section \<open>Facts about the guards and the conditional update\<close>

lemmas ex_defs = ex_student_def ex_faculty_def ex_faculty2_def ex_hod_def ex_admin_def ex_od_def
  ex_mark_def ex_db_def ex_apply_def

lemma update_where_none:
  "\<forall>r \<in> set rows. \<not> P r \<Longrightarrow> update_where P f rows = (rows, [])"
  by (induction rows) (auto simp: update_where_def)

lemma guard_ok:
  "u_role u \<in> set rs \<Longrightarrow> require_role rs u = Inr u"
  by (simp add: require_role_def)

lemma tenant_ok:
  "u_role u \<noteq> ''super_admin'' \<Longrightarrow> u_tenant_id u = Some t \<Longrightarrow> t \<noteq> [] \<Longrightarrow> get_tenant_id u = Inr (Some t)"
  by (simp add: get_tenant_id_def)

lemma update_where_rows: "fst (update_where P f rows) = map (\<lambda>r. if P r then f r else r) rows"
  by (simp add: update_where_def)

lemma update_where_data: "snd (update_where P f rows) = map f (filter P rows)"
  by (simp add: update_where_def)

section \<open>On-duty requests: initial state and terminal states\<close>

text \<open>
  C5. Whenever \<open>apply_od\<close> succeeds it has appended exactly one request, for the calling
  student, whose status is \<open>pending_hod\<close> if the \<open>od_type\<close> of the body is \<open>special\<close> or
  \<open>medical\<close> and \<open>pending_faculty\<close> for every other \<open>od_type\<close>.
\<close>

theorem apply_od_initial_status:
  assumes "apply_od d u body new_id created = (Inr rows, d')"
  shows "\<exists>row. rows = [row] \<and> od_requests d' = od_requests d @ [row] \<and>
           od_student_id row = u_user_id u \<and> od_type row = a_od_type body \<and>
           od_status row = (if a_od_type body = ''special'' \<or> a_od_type body = ''medical''
                            then ''pending_hod'' else ''pending_faculty'')"
  using assms
  by (auto simp: apply_od_def initial_status_def require_role_def Let_def split: sum.splits if_splits)

theorem apply_od_initial_status_witness:
  "apply_od (ex_db [] []) ex_student (ex_apply ''medical'') ''od1'' 5
     = (Inr [ex_od ''od1'' ''medical'' ''pending_hod''],
        ex_db [ex_od ''od1'' ''medical'' ''pending_hod''] []) \<and>
   apply_od (ex_db [] []) ex_student (ex_apply ''normal'') ''od1'' 5
     = (Inr [ex_od ''od1'' ''normal'' ''pending_faculty''],
        ex_db [ex_od ''od1'' ''normal'' ''pending_faculty''] [])"
proof -
  have a: "apply_od (ex_db [] []) ex_student (ex_apply ''medical'') ''od1'' 5
     = (Inr [ex_od ''od1'' ''medical'' ''pending_hod''],
        ex_db [ex_od ''od1'' ''medical'' ''pending_hod''] [])"
    by (simp add: apply_od_def require_role_def get_tenant_id_def od_resolve_subject_def
          initial_status_def Let_def ex_defs)
  have b: "apply_od (ex_db [] []) ex_student (ex_apply ''normal'') ''od1'' 5
     = (Inr [ex_od ''od1'' ''normal'' ''pending_faculty''],
        ex_db [ex_od ''od1'' ''normal'' ''pending_faculty''] [])"
    by (simp add: apply_od_def require_role_def get_tenant_id_def od_resolve_subject_def
          initial_status_def Let_def ex_defs)
  from apply_od_initial_status [OF a] apply_od_initial_status [OF b] a b show ?thesis
    by simp
qed

text \<open>
  C6. If the request addressed by \<open>od_id\<close> is in a terminal state (\<open>approved\<close> or
  \<open>rejected\<close>), an approve or reject call by a faculty member through \<open>faculty_od_action\<close>, or
  by a HOD through \<open>hod_od_action\<close>, returns success with zero affected rows and leaves the
  store as it was.
\<close>

theorem terminal_od_immune:
  assumes "\<forall>r \<in> set (od_requests d). od_id r = oid \<longrightarrow> od_status r = ''approved'' \<or> od_status r = ''rejected''"
    and "act_action body = ''approve'' \<or> act_action body = ''reject''"
    and "u_tenant_id u = Some t" and "t \<noteq> []"
  shows "(u_role u = ''faculty'' \<longrightarrow> faculty_od_action d u oid body now = (Inr [], d)) \<and>
         (u_role u = ''hod'' \<longrightarrow> hod_od_action d u oid body now = (Inr [], d))"
proof -
  have f: "update_where (\<lambda>r. od_id r = oid \<and> od_tenant_id r = Some t \<and> od_status r = ''pending_faculty'') g
             (od_requests d) = (od_requests d, [])" for g
    using assms(1) by (intro update_where_none) auto
  have h: "update_where (\<lambda>r. od_id r = oid \<and> od_tenant_id r = Some t \<and> od_status r = ''pending_hod'') g
             (od_requests d) = (od_requests d, [])" for g
    using assms(1) by (intro update_where_none) auto
  show ?thesis
    using assms(2-4)
    by (auto simp: faculty_od_action_def hod_od_action_def guard_ok tenant_ok f h
          faculty_update_data_def hod_update_data_def)
qed

theorem terminal_od_immune_witness:
  "faculty_od_action (ex_db [ex_od ''od1'' ''normal'' ''rejected''] []) ex_faculty ''od1''
      \<lparr> act_action = ''approve'', act_rejection_reason = None \<rparr> ''2026-03-03T10:00:00''
     = (Inr [], ex_db [ex_od ''od1'' ''normal'' ''rejected''] []) \<and>
   hod_od_action (ex_db [ex_od ''od1'' ''normal'' ''rejected''] []) ex_hod ''od1''
      \<lparr> act_action = ''approve'', act_rejection_reason = None \<rparr> ''2026-03-03T10:00:00''
     = (Inr [], ex_db [ex_od ''od1'' ''normal'' ''rejected''] [])"
proof -
  let ?d = "ex_db [ex_od ''od1'' ''normal'' ''rejected''] []"
  let ?b = "\<lparr> act_action = ''approve'', act_rejection_reason = None \<rparr>"
  have t: "\<forall>r \<in> set (od_requests ?d). od_id r = ''od1'' \<longrightarrow>
             od_status r = ''approved'' \<or> od_status r = ''rejected''"
    by (simp add: ex_defs)
  have a: "act_action ?b = ''approve'' \<or> act_action ?b = ''reject''" by simp
  have f: "u_tenant_id ex_faculty = Some ''t1''" "u_role ex_faculty = ''faculty''"
    and h: "u_tenant_id ex_hod = Some ''t1''" "u_role ex_hod = ''hod''"
    and n: "''t1'' \<noteq> []"
    by (simp_all add: ex_defs)
  from terminal_od_immune [OF t a f(1) n, of "''2026-03-03T10:00:00''"]
       terminal_od_immune [OF t a h(1) n, of "''2026-03-03T10:00:00''"] f(2) h(2)
  show ?thesis by simp
qed

section \<open>Internal marks: bulk approve and lock\<close>

text \<open>
  C7. An approve call by a HOD or admin of tenant \<open>t\<close> on subject \<open>sid\<close> returns exactly the
  rows of that tenant and subject that were \<open>submitted\<close>, each now \<open>approved\<close> and stamped
  with the caller's id and the one timestamp of the call; every other row of the table is
  unchanged and no error is raised; a second approve call right after returns zero rows and
  changes nothing.
\<close>

theorem approve_marks_bulk:
  assumes role: "u_role u = ''hod'' \<or> u_role u = ''admin''"
    and tenant: "u_tenant_id u = Some t" "t \<noteq> []"
    and act: "ma_action body = ''approve''"
    and run: "approve_marks d u sid body now = (res, d')"
  shows "res = Inr (map (\<lambda>r. r\<lparr> im_status := ''approved'', im_approved_by := Some (u_user_id u),
                                 im_approved_at := Some now \<rparr>)
                    (filter (\<lambda>r. im_tenant_id r = Some t \<and> im_subject_id r = sid \<and>
                                  im_status r = ''submitted'') (internal_marks d))) \<and>
         internal_marks d' =
           map (\<lambda>r. if im_tenant_id r = Some t \<and> im_subject_id r = sid \<and> im_status r = ''submitted''
                     then r\<lparr> im_status := ''approved'', im_approved_by := Some (u_user_id u),
                             im_approved_at := Some now \<rparr>
                     else r) (internal_marks d) \<and>
         approve_marks d' u sid body now' = (Inr [], d')"
proof -
  let ?P = "\<lambda>r. im_tenant_id r = Some t \<and> im_subject_id r = sid \<and> im_status r = ''submitted''"
  let ?f = "\<lambda>r. r\<lparr> im_status := ''approved'', im_approved_by := Some (u_user_id u),
                           im_approved_at := Some now \<rparr>"
  have g: "require_role [''hod'', ''admin''] u = Inr u"
    using role by (auto simp: require_role_def)
  have tn: "get_tenant_id u = Inr (Some t)"
    using role tenant by (auto simp: get_tenant_id_def)
  have ud: "marks_update_data body (u_user_id u) n = Inr (\<lambda>r. r\<lparr> im_status := ''approved'',
              im_approved_by := Some (u_user_id u), im_approved_at := Some n \<rparr>)" for n
    using act by (simp add: marks_update_data_def)
  have unf: "approve_marks dd u sid body n =
          (Inr (snd (update_where ?P (\<lambda>r. r\<lparr> im_status := ''approved'',
              im_approved_by := Some (u_user_id u), im_approved_at := Some n \<rparr>) (internal_marks dd))),
           dd\<lparr> internal_marks := fst (update_where ?P (\<lambda>r. r\<lparr> im_status := ''approved'',
              im_approved_by := Some (u_user_id u), im_approved_at := Some n \<rparr>) (internal_marks dd)) \<rparr>)" for dd n
    by (simp add: approve_marks_def g tn ud split_beta)
  from run have res: "res = Inr (snd (update_where ?P ?f (internal_marks d)))"
    and d': "d' = d\<lparr> internal_marks := fst (update_where ?P ?f (internal_marks d)) \<rparr>"
    by (simp_all add: unf)
  from res have r1: "res = Inr (map ?f (filter ?P (internal_marks d)))"
    by (simp only: update_where_data)
  from d' have r2: "internal_marks d' = map (\<lambda>r. if ?P r then ?f r else r) (internal_marks d)"
    by (simp add: update_where_rows)
  have "\<not> ?P r" if "r \<in> set (internal_marks d')" for r
  proof -
    from that obtain r0 where "r = (if ?P r0 then ?f r0 else r0)"
      unfolding r2 set_map by blast
    then show ?thesis by (cases "?P r0") simp_all
  qed
  then have "\<forall>r \<in> set (internal_marks d'). \<not> ?P r" by blast
  then have "update_where ?P g' (internal_marks d') = (internal_marks d', [])" for g'
    by (rule update_where_none)
  then have r3: "approve_marks d' u sid body now' = (Inr [], d')"
    by (simp add: unf)
  from r1 r2 r3 show ?thesis by (intro conjI)
qed

theorem approve_marks_bulk_witness:
  "approve_marks (ex_db [] [ex_mark ''sA'' 40 ''submitted'', ex_mark ''sB'' 55 ''submitted'',
                            ex_mark ''sC'' 70 ''locked'']) ex_hod ''sub1''
      \<lparr> ma_action = ''approve'' \<rparr> ''2026-03-03T10:00:00''
     = (Inr [(ex_mark ''sA'' 40 ''approved'')\<lparr> im_approved_by := Some ''h1'',
                 im_approved_at := Some ''2026-03-03T10:00:00'' \<rparr>,
              (ex_mark ''sB'' 55 ''approved'')\<lparr> im_approved_by := Some ''h1'',
                 im_approved_at := Some ''2026-03-03T10:00:00'' \<rparr>],
        ex_db [] [(ex_mark ''sA'' 40 ''approved'')\<lparr> im_approved_by := Some ''h1'',
                     im_approved_at := Some ''2026-03-03T10:00:00'' \<rparr>,
                  (ex_mark ''sB'' 55 ''approved'')\<lparr> im_approved_by := Some ''h1'',
                     im_approved_at := Some ''2026-03-03T10:00:00'' \<rparr>,
                  ex_mark ''sC'' 70 ''locked''])"
proof -
  let ?d = "ex_db [] [ex_mark ''sA'' 40 ''submitted'', ex_mark ''sB'' 55 ''submitted'',
                      ex_mark ''sC'' 70 ''locked'']"
  let ?b = "\<lparr> ma_action = ''approve'' \<rparr>"
  let ?now = "''2026-03-03T10:00:00''"
  obtain res d' where run: "approve_marks ?d ex_hod ''sub1'' ?b ?now = (res, d')"
    by (cases "approve_marks ?d ex_hod ''sub1'' ?b ?now")
  have r: "u_role ex_hod = ''hod'' \<or> u_role ex_hod = ''admin''"
    and t: "u_tenant_id ex_hod = Some ''t1''" and n: "''t1'' \<noteq> []" and a: "ma_action ?b = ''approve''"
    by (simp_all add: ex_defs)
  have other: "d' = ?d\<lparr> internal_marks := internal_marks d' \<rparr>"
    using run by (auto simp add: approve_marks_def require_role_def get_tenant_id_def
        marks_update_data_def split_beta ex_defs)
  from approve_marks_bulk [OF r t n a run] other run show ?thesis
    by (simp add: ex_defs)
qed

text \<open>
  C8. A lock call by an admin of tenant \<open>t\<close> on subject \<open>sid\<close> turns exactly the rows of that
  tenant and subject whose status is \<open>approved\<close> into \<open>locked\<close> rows, stamped with the locker
  and the time, and leaves every row in any other status as it was; a second lock call right
  after affects zero rows and changes nothing.
\<close>

theorem lock_marks_only_approved:
  assumes role: "u_role u = ''admin''"
    and tenant: "u_tenant_id u = Some t" "t \<noteq> []"
    and run: "lock_marks d u sid now = (res, d')"
  shows "res = Inr (map (\<lambda>r. r\<lparr> im_status := ''locked'', im_locked_by := Some (u_user_id u),
                                 im_locked_at := Some now \<rparr>)
                    (filter (\<lambda>r. im_tenant_id r = Some t \<and> im_subject_id r = sid \<and>
                                  im_status r = ''approved'') (internal_marks d))) \<and>
         internal_marks d' =
           map (\<lambda>r. if im_tenant_id r = Some t \<and> im_subject_id r = sid \<and> im_status r = ''approved''
                     then r\<lparr> im_status := ''locked'', im_locked_by := Some (u_user_id u),
                             im_locked_at := Some now \<rparr>
                     else r) (internal_marks d) \<and>
         lock_marks d' u sid now' = (Inr [], d')"
proof -
  let ?P = "\<lambda>r. im_tenant_id r = Some t \<and> im_subject_id r = sid \<and> im_status r = ''approved''"
  let ?f = "\<lambda>r. r\<lparr> im_status := ''locked'', im_locked_by := Some (u_user_id u),
                           im_locked_at := Some now \<rparr>"
  have g: "require_role [''admin''] u = Inr u"
    using role by (auto simp: require_role_def)
  have tn: "get_tenant_id u = Inr (Some t)"
    using role tenant by (auto simp: get_tenant_id_def)
  have unf: "lock_marks dd u sid n =
          (Inr (snd (update_where ?P (\<lambda>r. r\<lparr> im_status := ''locked'',
              im_locked_by := Some (u_user_id u), im_locked_at := Some n \<rparr>) (internal_marks dd))),
           dd\<lparr> internal_marks := fst (update_where ?P (\<lambda>r. r\<lparr> im_status := ''locked'',
              im_locked_by := Some (u_user_id u), im_locked_at := Some n \<rparr>) (internal_marks dd)) \<rparr>)" for dd n
    by (simp add: lock_marks_def g tn split_beta)
  from run have res: "res = Inr (snd (update_where ?P ?f (internal_marks d)))"
    and d': "d' = d\<lparr> internal_marks := fst (update_where ?P ?f (internal_marks d)) \<rparr>"
    by (simp_all add: unf)
  from res have r1: "res = Inr (map ?f (filter ?P (internal_marks d)))"
    by (simp only: update_where_data)
  from d' have r2: "internal_marks d' = map (\<lambda>r. if ?P r then ?f r else r) (internal_marks d)"
    by (simp add: update_where_rows)
  have "\<not> ?P r" if "r \<in> set (internal_marks d')" for r
  proof -
    from that obtain r0 where "r = (if ?P r0 then ?f r0 else r0)"
      unfolding r2 set_map by blast
    then show ?thesis by (cases "?P r0") simp_all
  qed
  then have "\<forall>r \<in> set (internal_marks d'). \<not> ?P r" by blast
  then have "update_where ?P g' (internal_marks d') = (internal_marks d', [])" for g'
    by (rule update_where_none)
  then have r3: "lock_marks d' u sid now' = (Inr [], d')"
    by (simp add: unf)
  from r1 r2 r3 show ?thesis by (intro conjI)
qed

theorem lock_marks_only_approved_witness:
  "lock_marks (ex_db [] [ex_mark ''sA'' 40 ''approved'', ex_mark ''sB'' 55 ''submitted''])
      ex_admin ''sub1'' ''2026-03-04T09:00:00''
     = (Inr [(ex_mark ''sA'' 40 ''locked'')\<lparr> im_locked_by := Some ''a1'',
                 im_locked_at := Some ''2026-03-04T09:00:00'' \<rparr>],
        ex_db [] [(ex_mark ''sA'' 40 ''locked'')\<lparr> im_locked_by := Some ''a1'',
                     im_locked_at := Some ''2026-03-04T09:00:00'' \<rparr>,
                  ex_mark ''sB'' 55 ''submitted''])"
proof -
  let ?d = "ex_db [] [ex_mark ''sA'' 40 ''approved'', ex_mark ''sB'' 55 ''submitted'']"
  let ?now = "''2026-03-04T09:00:00''"
  obtain res d' where run: "lock_marks ?d ex_admin ''sub1'' ?now = (res, d')"
    by (cases "lock_marks ?d ex_admin ''sub1'' ?now")
  have r: "u_role ex_admin = ''admin''"
    and t: "u_tenant_id ex_admin = Some ''t1''" and n: "''t1'' \<noteq> []"
    by (simp_all add: ex_defs)
  have other: "d' = ?d\<lparr> internal_marks := internal_marks d' \<rparr>"
    using run by (auto simp add: lock_marks_def require_role_def get_tenant_id_def split_beta ex_defs)
  from lock_marks_only_approved [OF r t n run] other run show ?thesis
    by (simp add: ex_defs)
qed

section \<open>Where the handlers part from the stated workflow\<close>

text \<open>
  C1. \<open>faculty_od_action\<close> filters on id, tenant and status only. The request \<open>od1\<close> of student
  \<open>s1\<close>, whose advisor is \<open>f1\<close>, is not among the requests \<open>get_pending_od\<close> shows to \<open>f2\<close>,
  yet an approve call by \<open>f2\<close> succeeds and moves it to \<open>pending_hod\<close>.
\<close>

theorem faculty_action_by_non_advisor:
  "advisee_ids (ex_db [ex_od ''od1'' ''normal'' ''pending_faculty''] []) (Some ''t1'') ''f2'' = [] \<and>
   get_pending_od (ex_db [ex_od ''od1'' ''normal'' ''pending_faculty''] []) ex_faculty2 = Inr [] \<and>
   faculty_od_action (ex_db [ex_od ''od1'' ''normal'' ''pending_faculty''] []) ex_faculty2 ''od1''
      \<lparr> act_action = ''approve'', act_rejection_reason = None \<rparr> ''2026-03-03T10:00:00''
     = (Inr [(ex_od ''od1'' ''normal'' ''pending_hod'')\<lparr> od_faculty_action_by := Some ''f2'',
                 od_faculty_action_at := Some ''2026-03-03T10:00:00'' \<rparr>],
        ex_db [(ex_od ''od1'' ''normal'' ''pending_hod'')\<lparr> od_faculty_action_by := Some ''f2'',
                  od_faculty_action_at := Some ''2026-03-03T10:00:00'' \<rparr>] [])"
  by (simp add: advisee_ids_def get_pending_od_def faculty_od_action_def faculty_update_data_def
        update_where_def require_role_def get_tenant_id_def ex_defs)

text \<open>Approve, reject and lock never rewrite a locked row: their filters ask for
  \<open>submitted\<close> and \<open>approved\<close>.\<close>

lemma update_where_keeps:
  "\<forall>r. Q r \<longrightarrow> \<not> P r \<Longrightarrow>
     \<exists>g. fst (update_where P f rows) = map g rows \<and> (\<forall>r. Q r \<longrightarrow> g r = r)"
  by (intro exI [of _ "\<lambda>r. if P r then f r else r"]) (auto simp: update_where_def)

lemma approve_marks_keeps_locked:
  assumes "approve_marks d u sid body now = (res, d')"
  shows "\<exists>g. internal_marks d' = map g (internal_marks d) \<and>
             (\<forall>r. im_status r = ''locked'' \<longrightarrow> g r = r)"
proof (cases "\<exists>e. res = Inl e \<and> d' = d")
  case True
  then show ?thesis by (intro exI [of _ id]) auto
next
  case False
  with assms obtain t f where
    "internal_marks d' = fst (update_where (\<lambda>r. im_tenant_id r = t \<and> im_subject_id r = sid \<and>
        im_status r = ''submitted'') f (internal_marks d))"
    by (auto simp: approve_marks_def split_beta split: sum.splits)
  with update_where_keeps [of "\<lambda>r. im_status r = ''locked''"
      "\<lambda>r. im_tenant_id r = t \<and> im_subject_id r = sid \<and> im_status r = ''submitted''" f "internal_marks d"]
  show ?thesis by simp
qed

lemma lock_marks_keeps_locked:
  assumes "lock_marks d u sid now = (res, d')"
  shows "\<exists>g. internal_marks d' = map g (internal_marks d) \<and>
             (\<forall>r. im_status r = ''locked'' \<longrightarrow> g r = r)"
proof (cases "\<exists>e. res = Inl e \<and> d' = d")
  case True
  then show ?thesis by (intro exI [of _ id]) auto
next
  case False
  with assms obtain t f where
    "internal_marks d' = fst (update_where (\<lambda>r. im_tenant_id r = t \<and> im_subject_id r = sid \<and>
        im_status r = ''approved'') f (internal_marks d))"
    by (auto simp: lock_marks_def split_beta split: sum.splits)
  with update_where_keeps [of "\<lambda>r. im_status r = ''locked''"
      "\<lambda>r. im_tenant_id r = t \<and> im_subject_id r = sid \<and> im_status r = ''approved''" f "internal_marks d"]
  show ?thesis by simp
qed

text \<open>
  C2. \<open>submit_marks\<close> upserts on the key alone. A later submit for the key of a \<open>locked\<close> row
  overwrites its marks and puts it back to \<open>submitted\<close>.
\<close>

theorem submit_overwrites_locked_row:
  "submit_marks (ex_db [] [ex_mark ''s1'' 40 ''locked'']) ex_faculty
      \<lparr> ms_subject_id = ''sub1'',
        ms_entries = [\<lparr> me_student_id = ''s1'', me_marks = 90, me_max_marks = 100 \<rparr>] \<rparr>
     = (Inr 1, ex_db [] [ex_mark ''s1'' 90 ''submitted''])"
  by (simp add: submit_marks_def submit_record_def upsert_def upsert1_def upserted_def same_key_def
        merge_record_def require_role_def get_tenant_id_def ex_defs)

section \<open>Occupancy keys\<close>

text \<open>The decimal rendering of an integer determines it, and a non-negative one has no dash; so
  for a fixed id and non-negative days the key determines day and period.\<close>

lemma digit_char_vals:
  "digit_char 0 = CHR ''0''" "digit_char 1 = CHR ''1''" "digit_char 2 = CHR ''2''"
  "digit_char 3 = CHR ''3''" "digit_char 4 = CHR ''4''" "digit_char 5 = CHR ''5''"
  "digit_char 6 = CHR ''6''" "digit_char 7 = CHR ''7''" "digit_char 8 = CHR ''8''"
  "digit_char 9 = CHR ''9''" "digit_char (Suc 0) = CHR ''1''"
  by (simp_all add: digit_char_def nth_Cons')

lemma of_char_digit_char: "a < 10 \<Longrightarrow> of_char (digit_char a) = 48 + a"
proof -
  assume "a < 10"
  then have "a = 0 \<or> a = 1 \<or> a = 2 \<or> a = 3 \<or> a = 4 \<or> a = 5 \<or> a = 6 \<or> a = 7 \<or> a = 8 \<or> a = 9"
    by arith
  then show ?thesis by (elim disjE) (simp_all add: digit_char_def nth_Cons')
qed


lemma digit_char_inj: "a < 10 \<Longrightarrow> b < 10 \<Longrightarrow> digit_char a = digit_char b \<Longrightarrow> a = b"
proof -
  assume a: "a < 10" and b: "b < 10" and e: "digit_char a = digit_char b"
  from e have "of_char (digit_char a) = (of_char (digit_char b) :: nat)" by simp
  then show "a = b" using a b by (simp add: of_char_digit_char)
qed

lemma digit_char_not_dash: "a < 10 \<Longrightarrow> digit_char a \<noteq> CHR ''-''"
proof
  assume a: "a < 10" and e: "digit_char a = CHR ''-''"
  from e have "of_char (digit_char a) = (of_char (CHR ''-'') :: nat)" by simp
  then show False using a by (simp add: of_char_digit_char)
qed

lemma str_nat_not_Nil: "str_nat n \<noteq> []"
  by (subst str_nat.simps) simp

lemma str_nat_no_dash: "CHR ''-'' \<notin> set (str_nat n)"
proof (induction n rule: str_nat.induct)
  case (1 n)
  show ?case
  proof (cases "n < 10")
    case True
    then show ?thesis using digit_char_not_dash [of n] by (subst str_nat.simps) auto
  next
    case False
    then show ?thesis using 1 digit_char_not_dash [of "n mod 10"]
      by (subst str_nat.simps) auto
  qed
qed

lemma str_nat_inj: "str_nat n = str_nat m \<Longrightarrow> n = m"
proof (induction n arbitrary: m rule: str_nat.induct)
  case (1 n)
  show ?case
  proof (cases "n < 10")
    case n: True
    show ?thesis
    proof (cases "m < 10")
      case True
      with n 1(2) show ?thesis
        by (simp add: str_nat.simps [of n] str_nat.simps [of m] digit_char_inj)
    next
      case False
      with n 1(2) show ?thesis
        using str_nat_not_Nil [of "m div 10"]
        by (simp add: str_nat.simps [of n] str_nat.simps [of m])
    qed
  next
    case n: False
    show ?thesis
    proof (cases "m < 10")
      case True
      with n 1(2) show ?thesis
        using str_nat_not_Nil [of "n div 10"]
        by (simp add: str_nat.simps [of n] str_nat.simps [of m])
    next
      case False
      with n 1(2) have e: "str_nat (n div 10) = str_nat (m div 10)"
        and d: "digit_char (n mod 10) = digit_char (m mod 10)"
        by (simp_all add: str_nat.simps [of n] str_nat.simps [of m])
      from 1(1) [OF n e] have "n div 10 = m div 10" .
      moreover from d have "n mod 10 = m mod 10" by (intro digit_char_inj) simp_all
      ultimately show ?thesis by (metis div_mult_mod_eq)
    qed
  qed
qed

lemma str_int_inj: "str_int i = str_int j \<Longrightarrow> i = j"
proof -
  assume e: "str_int i = str_int j"
  show "i = j"
  proof (cases "i < 0"; cases "j < 0")
    assume "i < 0" "j < 0"
    with e have "nat (- i) = nat (- j)" by (simp add: str_int_def str_nat_inj)
    with \<open>i < 0\<close> \<open>j < 0\<close> show ?thesis by simp
  next
    assume "i < 0" "\<not> j < 0"
    with e have "CHR ''-'' \<in> set (str_nat (nat j))"
      by (simp add: str_int_def) (metis list.set_intros(1))
    with str_nat_no_dash show ?thesis by blast
  next
    assume "\<not> i < 0" "j < 0"
    with e have "CHR ''-'' \<in> set (str_nat (nat i))"
      by (simp add: str_int_def)
    with str_nat_no_dash show ?thesis by blast
  next
    assume "\<not> i < 0" "\<not> j < 0"
    with e have "nat i = nat j" by (simp add: str_int_def str_nat_inj)
    with \<open>\<not> i < 0\<close> \<open>\<not> j < 0\<close> show ?thesis by simp
  qed
qed


lemma str_int_no_dash_nonneg: "0 \<le> i \<Longrightarrow> CHR ''-'' \<notin> set (str_int i)"
  by (simp add: str_int_def str_nat_no_dash)

lemma split_at_dash:
  assumes "CHR ''-'' \<notin> set a" "CHR ''-'' \<notin> set b" "a @ CHR ''-'' # u = b @ CHR ''-'' # v"
  shows "a = b \<and> u = v"
  using assms
proof (induction a arbitrary: b)
  case Nil
  then show ?case by (cases b) auto
next
  case (Cons x a)
  then show ?case by (cases b) auto
qed

lemma occ_key_inj:
  assumes "0 \<le> d" "0 \<le> d'" "occ_key x d p = occ_key x d' p'"
  shows "d = d' \<and> p = p'"
proof -
  from assms(3) have "str_int d @ CHR ''-'' # str_int p = str_int d' @ CHR ''-'' # str_int p'"
    by (simp add: occ_key_def)
  from split_at_dash [OF str_int_no_dash_nonneg [OF assms(1)] str_int_no_dash_nonneg [OF assms(2)] this]
  show ?thesis by (auto dest: str_int_inj)
qed

lemmas ex_tt_defs = ex_period_def ex_periods_def ex_subject_def ex_assignment_def ex_room_def
  ex_slot_def ex_tt_db_def accept_all_def ex_admin_def

lemmas run_defs = generate_timetable_def require_role_def get_tenant_id_def
  semester_subject_ids_def selected_assignments_def selected_periods_def available_rooms_def
  existing_slots_def clear_batch_def index_existing_def mark_existing_def hrs_needed_of_def
  days_def place_def slot_data_def truthy_def occ_key_def str_int_def str_nat.simps
  digit_char_vals Let_def

section \<open>A run keeps the timetable conflict free\<close>

lemma conflict_free_append:
  "conflict_free (xs @ ys) \<longleftrightarrow>
     conflict_free xs \<and> conflict_free ys \<and> (\<forall>a \<in> set xs. \<forall>b \<in> set ys. \<not> clash a b)"
  by (induction xs) (auto simp: list_all_iff)

lemma conflict_free_snoc:
  "conflict_free (xs @ [n]) \<longleftrightarrow> conflict_free xs \<and> (\<forall>a \<in> set xs. \<not> clash a n)"
  by (simp add: conflict_free_append)

lemma conflict_free_filter: "conflict_free xs \<Longrightarrow> conflict_free (filter P xs)"
  by (induction xs) (auto simp: list_all_iff)

lemma find_room_Some:
  "find_room ro rooms day pnum = Some r \<Longrightarrow>
     r \<in> c_id ` set rooms \<and> occ_key r day pnum \<notin> dom ro"
  by (induction rooms) (auto split: if_splits)

lemma marked_mono:
  assumes "marked st s"
    and "dom (faculty_occupied st) \<subseteq> dom (faculty_occupied st')"
    and "dom (batch_occupied st) \<subseteq> dom (batch_occupied st')"
    and "dom (room_occupied st) \<subseteq> dom (room_occupied st')"
  shows "marked st' s"
  using assms unfolding marked_def by (auto split: option.splits)

lemma mark_existing_fields:
  "created_slots (mark_existing st s) = created_slots st"
  "gs_table (mark_existing st s) = gs_table st"
  "dom (faculty_occupied st) \<subseteq> dom (faculty_occupied (mark_existing st s))"
  "dom (batch_occupied st) \<subseteq> dom (batch_occupied (mark_existing st s))"
  "dom (room_occupied st) \<subseteq> dom (room_occupied (mark_existing st s))"
  by (auto simp: mark_existing_def Let_def split: option.splits)

lemma mark_existing_marks: "marked (mark_existing st s) s"
  by (auto simp: mark_existing_def marked_def Let_def split: option.splits)

lemma mark_existing_keeps: "marked st x \<Longrightarrow> marked (mark_existing st s) x"
  by (erule marked_mono) (rule mark_existing_fields)+

lemma foldl_mark_existing_keeps:
  "marked st x \<Longrightarrow> marked (foldl mark_existing st xs) x"
  by (induction xs arbitrary: st) (auto intro: mark_existing_keeps)

lemma foldl_mark_existing_marks:
  "x \<in> set xs \<Longrightarrow> marked (foldl mark_existing st xs) x"
  by (induction xs arbitrary: st)
     (auto intro: foldl_mark_existing_keeps mark_existing_marks)

lemma foldl_mark_existing_fields:
  "created_slots (foldl mark_existing st xs) = created_slots st \<and>
   gs_table (foldl mark_existing st xs) = gs_table st"
  by (induction xs arbitrary: st) (auto simp: mark_existing_fields)

lemma run_inv_index_existing:
  "run_inv tbl existing tenant_id (index_existing tbl existing)"
  unfolding run_inv_def index_existing_def
  by (simp add: foldl_mark_existing_fields list_all_iff foldl_mark_existing_marks)

lemma place_cases:
  "place ins tenant_id batch_id asgn rooms day period acc = acc \<or>
   (occ_key (fa_faculty_id asgn) day (pt_period_number period) \<notin> dom (faculty_occupied (snd acc)) \<and>
    occ_key batch_id day (pt_period_number period) \<notin> dom (batch_occupied (snd acc)) \<and>
    place ins tenant_id batch_id asgn rooms day period acc =
      (fst acc + 1,
       (snd acc)\<lparr> gs_table := gs_table (snd acc) @
            [slot_data tenant_id batch_id asgn
               (find_room (room_occupied (snd acc)) rooms day (pt_period_number period)) day period],
         created_slots := created_slots (snd acc) @
            [slot_data tenant_id batch_id asgn
               (find_room (room_occupied (snd acc)) rooms day (pt_period_number period)) day period],
         faculty_occupied := (faculty_occupied (snd acc))
            (occ_key (fa_faculty_id asgn) day (pt_period_number period) \<mapsto> True),
         batch_occupied := (batch_occupied (snd acc))
            (occ_key batch_id day (pt_period_number period) \<mapsto> True),
         room_occupied :=
           (if truthy (find_room (room_occupied (snd acc)) rooms day (pt_period_number period))
            then (room_occupied (snd acc))
                   (occ_key (the (find_room (room_occupied (snd acc)) rooms day (pt_period_number period)))
                      day (pt_period_number period) \<mapsto> True)
            else room_occupied (snd acc)) \<rparr>))"
  by (simp add: place_def Let_def)

lemma run_inv_place:
  assumes inv: "run_inv tbl existing tenant_id (snd acc)"
    and rooms: "\<forall>r \<in> set rooms. c_id r \<noteq> []"
  shows "run_inv tbl existing tenant_id (snd (place ins tenant_id batch_id asgn rooms day period acc))"
proof -
  let ?st = "snd acc"
  let ?pn = "pt_period_number period"
  let ?room = "find_room (room_occupied ?st) rooms day ?pn"
  let ?n = "slot_data tenant_id batch_id asgn ?room day period"
  from place_cases [of ins tenant_id batch_id asgn rooms day period acc]
  show ?thesis
  proof (elim disjE conjE)
    assume "place ins tenant_id batch_id asgn rooms day period acc = acc"
    with inv show ?thesis by simp
  next
    assume kf: "occ_key (fa_faculty_id asgn) day ?pn \<notin> dom (faculty_occupied ?st)"
      and kb: "occ_key batch_id day ?pn \<notin> dom (batch_occupied ?st)"
      and eq: "place ins tenant_id batch_id asgn rooms day period acc =
        (fst acc + 1,
         ?st\<lparr> gs_table := gs_table ?st @ [?n], created_slots := created_slots ?st @ [?n],
           faculty_occupied := (faculty_occupied ?st)(occ_key (fa_faculty_id asgn) day ?pn \<mapsto> True),
           batch_occupied := (batch_occupied ?st)(occ_key batch_id day ?pn \<mapsto> True),
           room_occupied := (if truthy ?room
              then (room_occupied ?st)(occ_key (the ?room) day ?pn \<mapsto> True)
              else room_occupied ?st) \<rparr>)"
    let ?st' = "snd (place ins tenant_id batch_id asgn rooms day period acc)"
    let ?old = "existing @ created_slots ?st"
    from inv have tbl: "gs_table ?st = tbl @ created_slots ?st"
      and cf: "conflict_free (created_slots ?st)"
      and cross: "\<forall>a \<in> set existing. \<forall>b \<in> set (created_slots ?st). \<not> clash a b"
      and mk: "\<forall>s \<in> set ?old. marked ?st s"
      and tn: "\<forall>s \<in> set (created_slots ?st). ts_tenant_id s = tenant_id"
      by (simp_all add: run_inv_def list_all_iff)
    have room_ok: "r \<noteq> [] \<and> occ_key r day ?pn \<notin> dom (room_occupied ?st)" if "?room = Some r" for r
      using find_room_Some [OF that] rooms by auto
    have noclash: "\<not> clash s ?n" if s: "s \<in> set ?old" for s
    proof
      assume c: "clash s ?n"
      from mk s have m: "marked ?st s" by blast
      from c have d: "ts_day_of_week s = day" and p: "ts_period_number s = ?pn"
        by (simp_all add: clash_def slot_data_def)
      from c have "ts_faculty_id s = ts_faculty_id ?n \<or> ts_batch_id s = ts_batch_id ?n \<or>
          (ts_classroom_id s \<noteq> None \<and> ts_classroom_id s = ts_classroom_id ?n)"
        by (simp add: clash_def)
      then have "ts_faculty_id s = fa_faculty_id asgn \<or> ts_batch_id s = batch_id \<or>
          (\<exists>r. ts_classroom_id s = Some r \<and> ?room = Some r)"
        by (auto simp: slot_data_def)
      then show False
      proof (elim disjE exE conjE)
        assume "ts_faculty_id s = fa_faculty_id asgn"
        with m d p kf show False by (simp add: marked_def)
      next
        assume "ts_batch_id s = batch_id"
        with m d p kb show False by (simp add: marked_def)
      next
        fix r assume "ts_classroom_id s = Some r" "?room = Some r"
        with m d p room_ok [of r] show False by (simp add: marked_def)
      qed
    qed
    have doms: "dom (faculty_occupied ?st) \<subseteq> dom (faculty_occupied ?st')"
      "dom (batch_occupied ?st) \<subseteq> dom (batch_occupied ?st')"
      "dom (room_occupied ?st) \<subseteq> dom (room_occupied ?st')"
      by (auto simp: eq)
    have new_marked: "marked ?st' ?n"
      using room_ok by (auto simp: eq marked_def slot_data_def truthy_def split: option.splits)
    have created': "created_slots ?st' = created_slots ?st @ [?n]"
      and table': "gs_table ?st' = gs_table ?st @ [?n]"
      by (simp_all add: eq)
    have "gs_table ?st' = tbl @ created_slots ?st'"
      by (simp add: created' table' tbl)
    moreover have "conflict_free (created_slots ?st')"
      using cf noclash by (simp add: created' conflict_free_snoc)
    moreover have "list_all (\<lambda>a. list_all (\<lambda>b. \<not> clash a b) (created_slots ?st')) existing"
      using cross noclash by (simp add: created' list_all_iff)
    moreover have "list_all (marked ?st') (existing @ created_slots ?st')"
      using mk new_marked marked_mono [OF _ doms]
      by (auto simp: created' list_all_iff)
    moreover have "list_all (\<lambda>s. ts_tenant_id s = tenant_id) (created_slots ?st')"
      using tn by (simp add: created' list_all_iff slot_data_def)
    ultimately show ?thesis by (simp add: run_inv_def)
  qed
qed

lemma run_inv_period_loop:
  assumes "run_inv tbl existing tenant_id (snd acc)" "\<forall>r \<in> set rooms. c_id r \<noteq> []"
  shows "run_inv tbl existing tenant_id
           (snd (period_loop ins tenant_id batch_id asgn hrs rooms day periods acc))"
  using assms
proof (induction periods arbitrary: acc)
  case Nil
  then show ?case by simp
next
  case (Cons p ps)
  from Cons.prems have "run_inv tbl existing tenant_id
      (snd (place ins tenant_id batch_id asgn rooms day p acc))"
    by (rule run_inv_place)
  from Cons.IH [OF this Cons.prems(2)] Cons.prems(1) show ?case by simp
qed

lemma run_inv_day_loop:
  assumes "run_inv tbl existing tenant_id (snd acc)" "\<forall>r \<in> set rooms. c_id r \<noteq> []"
  shows "run_inv tbl existing tenant_id
           (snd (day_loop ins tenant_id batch_id asgn hrs rooms periods ds acc))"
  using assms
proof (induction ds arbitrary: acc)
  case Nil
  then show ?case by simp
next
  case (Cons d ds)
  from Cons.prems have "run_inv tbl existing tenant_id
      (snd (period_loop ins tenant_id batch_id asgn hrs rooms d periods acc))"
    by (rule run_inv_period_loop)
  from Cons.IH [OF this Cons.prems(2)] Cons.prems(1) show ?case by simp
qed

lemma run_inv_assign_loop:
  assumes "run_inv tbl existing tenant_id st" "\<forall>r \<in> set rooms. c_id r \<noteq> []"
  shows "run_inv tbl existing tenant_id
           (snd (assign_loop ins tenant_id batch_id rooms periods asgns st))"
  using assms
proof (induction asgns arbitrary: st)
  case Nil
  then show ?case by simp
next
  case (Cons a asgns)
  show ?case
  proof (cases "hrs_needed_of a")
    case None
    with Cons.prems show ?thesis by simp
  next
    case (Some h)
    have "run_inv tbl existing tenant_id
            (snd (day_loop ins tenant_id batch_id a h rooms periods days (0, st)))"
      using Cons.prems by (intro run_inv_day_loop) simp_all
    from Cons.IH [OF this Cons.prems(2)] Some show ?thesis by simp
  qed
qed


lemma get_tenant_id_Inr: "get_tenant_id u = Inr t \<Longrightarrow> t = u_tenant_id u"
  by (auto simp: get_tenant_id_def Let_def split: if_splits)

lemma generate_timetable_shape:
  assumes "generate_timetable ins d u body = (res, d')"
  shows "((\<exists>e. res = Inl e) \<and>
          (d' = d \<or> d' = (if tg_force_regenerate body
                           then clear_batch d (u_tenant_id u) (tg_batch_id body) else d))) \<or>
         (\<exists>periods asgns d1 st.
            d1 = (if tg_force_regenerate body
                  then clear_batch d (u_tenant_id u) (tg_batch_id body) else d) \<and>
            st = snd (assign_loop ins (u_tenant_id u) (tg_batch_id body)
                        (available_rooms d1 (u_tenant_id u)) periods asgns
                        (index_existing (timetable_slots d1) (existing_slots d1 (u_tenant_id u)))) \<and>
            d' = d1\<lparr> timetable_slots := gs_table st \<rparr> \<and>
            ((\<exists>e. res = Inl e) \<or>
             res = Inr \<lparr> allocated_slots = length (created_slots st),
                         total_assignments = length asgns, slots = created_slots st \<rparr>))"
proof (cases "require_role [''admin''] u")
  case (Inl e)
  with assms show ?thesis by (auto simp: generate_timetable_def)
next
  case (Inr user)
  then have user: "user = u" by (auto simp: require_role_def split: if_splits)
  show ?thesis
  proof (cases "get_tenant_id u")
    case (Inl e)
    with assms Inr user show ?thesis by (auto simp: generate_timetable_def)
  next
    case t: (Inr t)
    then have t_eq: "t = u_tenant_id u" by (rule get_tenant_id_Inr)
    show ?thesis
    proof (cases "find (\<lambda>b. b_id b = tg_batch_id body \<and> b_tenant_id b = t) (batches d)")
      case None
      with assms Inr user t show ?thesis by (auto simp: generate_timetable_def)
    next
      case (Some batch)
      with assms Inr user t show ?thesis
        unfolding generate_timetable_def t_eq [symmetric]
        by (simp add: Let_def split: if_splits option.splits) blast+
    qed
  qed
qed

lemma existing_slots_clear_batch:
  "existing_slots (clear_batch d t b) t = filter (\<lambda>s. ts_batch_id s \<noteq> b) (existing_slots d t)"
  by (auto simp: existing_slots_def clear_batch_def intro: filter_cong)

lemma set_available_rooms: "set (available_rooms d t) \<subseteq> set (classrooms d)"
  by (auto simp: available_rooms_def)

lemma place_marks_immediately:
  assumes "place ins tenant_id batch_id asgn rooms day period acc \<noteq> acc"
    and "pt_period_number period' = pt_period_number period"
  shows "place ins' tenant_id' batch_id asgn' rooms' day period'
           (place ins tenant_id batch_id asgn rooms day period acc)
         = place ins tenant_id batch_id asgn rooms day period acc"
proof -
  from place_cases [of ins tenant_id batch_id asgn rooms day period acc] assms(1)
  have "occ_key batch_id day (pt_period_number period)
          \<in> dom (batch_occupied (snd (place ins tenant_id batch_id asgn rooms day period acc)))"
    by auto
  then show ?thesis
    by (simp add: place_def [of ins' tenant_id' batch_id asgn' rooms' day period'] assms(2) Let_def)
qed

text \<open>
  C4. Take any call of \<open>generate_timetable\<close> on a store in which no classroom has the
  empty id. If it succeeds, the tenant's slots afterwards are the slots read at run start
  followed by the created ones; no two created slots clash, and no created slot clashes with a
  slot read at run start (a clash being: same day and period, and the same faculty, or the same
  batch, or the same non-null classroom). Whatever the call returns, if the tenant's slots were
  conflict free before it they are conflict free after it. Each placement that creates a slot
  leaves that slot's keys marked in the very state it returns, so that any later candidate of
  the run for the same batch, day and period number changes nothing.
\<close>

theorem generate_timetable_conflict_free:
  assumes run: "generate_timetable ins d u body = (res, d')"
    and rooms: "\<forall>r \<in> set (classrooms d). c_id r \<noteq> []"
  shows "(\<forall>resp. res = Inr resp \<longrightarrow>
            existing_slots d' (u_tenant_id u) =
              existing_slots (if tg_force_regenerate body
                              then clear_batch d (u_tenant_id u) (tg_batch_id body) else d)
                (u_tenant_id u) @ slots resp \<and>
            conflict_free (slots resp) \<and>
            list_all (\<lambda>a. list_all (\<lambda>b. \<not> clash a b) (slots resp))
              (existing_slots (if tg_force_regenerate body
                               then clear_batch d (u_tenant_id u) (tg_batch_id body) else d)
                 (u_tenant_id u))) \<and>
         (conflict_free (existing_slots d (u_tenant_id u)) \<longrightarrow>
            conflict_free (existing_slots d' (u_tenant_id u))) \<and>
         (\<forall>acc asgn rs day period ins' tenant' asgn' rs' period'.
            place ins (u_tenant_id u) (tg_batch_id body) asgn rs day period acc \<noteq> acc \<and>
            pt_period_number period' = pt_period_number period \<longrightarrow>
            marked (snd (place ins (u_tenant_id u) (tg_batch_id body) asgn rs day period acc))
              (last (created_slots
                 (snd (place ins (u_tenant_id u) (tg_batch_id body) asgn rs day period acc)))) \<and>
            place ins' tenant' (tg_batch_id body) asgn' rs' day period'
              (place ins (u_tenant_id u) (tg_batch_id body) asgn rs day period acc)
            = place ins (u_tenant_id u) (tg_batch_id body) asgn rs day period acc)"
proof -
  let ?t = "u_tenant_id u"
  let ?b = "tg_batch_id body"
  let ?d1 = "if tg_force_regenerate body then clear_batch d ?t ?b else d"
  have cf1: "conflict_free (existing_slots ?d1 ?t)" if "conflict_free (existing_slots d ?t)"
    using that by (simp add: existing_slots_clear_batch conflict_free_filter)
  have rooms1: "\<forall>r \<in> set (available_rooms ?d1 ?t). c_id r \<noteq> []"
    using rooms set_available_rooms [of ?d1 ?t] by (auto simp: clear_batch_def)
  have main: "(\<forall>resp. res = Inr resp \<longrightarrow>
            existing_slots d' ?t = existing_slots ?d1 ?t @ slots resp \<and>
            conflict_free (slots resp) \<and>
            list_all (\<lambda>a. list_all (\<lambda>b. \<not> clash a b) (slots resp)) (existing_slots ?d1 ?t)) \<and>
         (conflict_free (existing_slots d ?t) \<longrightarrow> conflict_free (existing_slots d' ?t))"
    (is ?M)
  proof -
    from generate_timetable_shape [OF run]
    consider (early) e where "res = Inl e" "d' = d \<or> d' = ?d1"
      | (loop) periods asgns d1 st where "d1 = ?d1"
          "st = snd (assign_loop ins ?t ?b (available_rooms d1 ?t) periods asgns
                      (index_existing (timetable_slots d1) (existing_slots d1 ?t)))"
          "d' = d1\<lparr> timetable_slots := gs_table st \<rparr>"
          "(\<exists>e. res = Inl e) \<or>
             res = Inr \<lparr> allocated_slots = length (created_slots st),
                         total_assignments = length asgns, slots = created_slots st \<rparr>"
      by blast
    then show ?M
    proof cases
      case early
      with cf1 show ?M by auto
    next
      case loop
      note d1 = loop(1) and st = loop(2) and d' = loop(3) and res = loop(4)
      have "run_inv (timetable_slots d1) (existing_slots d1 ?t) ?t st"
        unfolding st using rooms1
        by (intro run_inv_assign_loop run_inv_index_existing) (simp_all add: d1)
      then have tbl: "gs_table st = timetable_slots d1 @ created_slots st"
        and cfc: "conflict_free (created_slots st)"
        and cross: "list_all (\<lambda>a. list_all (\<lambda>b. \<not> clash a b) (created_slots st))
                      (existing_slots d1 ?t)"
        and tn: "\<forall>s \<in> set (created_slots st). ts_tenant_id s = ?t"
        by (simp_all add: run_inv_def list_all_iff)
      from tn have "filter (\<lambda>s. ts_tenant_id s = ?t) (created_slots st) = created_slots st"
        by (simp add: filter_id_conv)
      then have ex: "existing_slots d' ?t = existing_slots d1 ?t @ created_slots st"
        by (simp add: existing_slots_def d' tbl)
      have keep: "conflict_free (existing_slots d' ?t)" if "conflict_free (existing_slots d ?t)"
        using cf1 [OF that] cfc cross
        by (simp add: ex conflict_free_append d1 list_all_iff)
      from res ex cfc cross keep show ?M by (auto simp: d1)
    qed
  qed
  have step: "marked (snd (place ins ?t ?b asgn rs day period acc))
              (last (created_slots (snd (place ins ?t ?b asgn rs day period acc))))"
    if "place ins ?t ?b asgn rs day period acc \<noteq> acc" for acc asgn rs day period
    using place_cases [of ins ?t ?b asgn rs day period acc] that
    by (auto simp: marked_def slot_data_def truthy_def split: option.splits)
  from main step place_marks_immediately show ?thesis by blast
qed

theorem generate_timetable_conflict_free_witness:
  "generate_timetable accept_all
      (ex_tt_db [ex_subject ''sub1'' ''p1'' 3] [ex_assignment ''f1'' ''sub1'' (Val 2)]
         [ex_period 1 ''09:00'' ''09:50'', ex_period 2 ''10:00'' ''10:50'']
         [ex_slot ''b2'' ''sub9'' ''f1'' (Some ''r1'') 1 (ex_period 1 ''09:00'' ''09:50'')])
      ex_admin \<lparr> tg_batch_id = ''b1'', tg_force_regenerate = False \<rparr>
   = (Inr \<lparr> allocated_slots = 2, total_assignments = 1,
            slots = [ex_slot ''b1'' ''sub1'' ''f1'' (Some ''r1'') 1 (ex_period 2 ''10:00'' ''10:50''),
                     ex_slot ''b1'' ''sub1'' ''f1'' (Some ''r1'') 2 (ex_period 1 ''09:00'' ''09:50'')] \<rparr>,
      ex_tt_db [ex_subject ''sub1'' ''p1'' 3] [ex_assignment ''f1'' ''sub1'' (Val 2)]
         [ex_period 1 ''09:00'' ''09:50'', ex_period 2 ''10:00'' ''10:50'']
         [ex_slot ''b2'' ''sub9'' ''f1'' (Some ''r1'') 1 (ex_period 1 ''09:00'' ''09:50''),
          ex_slot ''b1'' ''sub1'' ''f1'' (Some ''r1'') 1 (ex_period 2 ''10:00'' ''10:50''),
          ex_slot ''b1'' ''sub1'' ''f1'' (Some ''r1'') 2 (ex_period 1 ''09:00'' ''09:50'')]) \<and>
   conflict_free
     [ex_slot ''b2'' ''sub9'' ''f1'' (Some ''r1'') 1 (ex_period 1 ''09:00'' ''09:50''),
      ex_slot ''b1'' ''sub1'' ''f1'' (Some ''r1'') 1 (ex_period 2 ''10:00'' ''10:50''),
      ex_slot ''b1'' ''sub1'' ''f1'' (Some ''r1'') 2 (ex_period 1 ''09:00'' ''09:50'')]"
proof -
  let ?e = "ex_slot ''b2'' ''sub9'' ''f1'' (Some ''r1'') 1 (ex_period 1 ''09:00'' ''09:50'')"
  let ?s1 = "ex_slot ''b1'' ''sub1'' ''f1'' (Some ''r1'') 1 (ex_period 2 ''10:00'' ''10:50'')"
  let ?s2 = "ex_slot ''b1'' ''sub1'' ''f1'' (Some ''r1'') 2 (ex_period 1 ''09:00'' ''09:50'')"
  let ?db = "ex_tt_db [ex_subject ''sub1'' ''p1'' 3] [ex_assignment ''f1'' ''sub1'' (Val 2)]
         [ex_period 1 ''09:00'' ''09:50'', ex_period 2 ''10:00'' ''10:50'']"
  let ?body = "\<lparr> tg_batch_id = ''b1'', tg_force_regenerate = False \<rparr>"
  have run: "generate_timetable accept_all (?db [?e]) ex_admin ?body
      = (Inr \<lparr> allocated_slots = 2, total_assignments = 1, slots = [?s1, ?s2] \<rparr>,
         ?db [?e, ?s1, ?s2])"
    by (simp add: run_defs ex_tt_defs)
  have cf: "conflict_free (existing_slots (?db [?e]) (u_tenant_id ex_admin))"
    by (simp add: existing_slots_def ex_tt_defs slot_data_def)
  have rs: "slots \<lparr> allocated_slots = 2, total_assignments = 1, slots = [?s1, ?s2] \<rparr> = [?s1, ?s2]"
    by simp
  have rooms: "\<forall>r \<in> set (classrooms (?db [?e])). c_id r \<noteq> []"
    by (simp add: ex_tt_defs)
  have ex: "existing_slots (?db [?e, ?s1, ?s2]) (u_tenant_id ex_admin) = [?e, ?s1, ?s2]"
    by (simp add: existing_slots_def ex_tt_defs slot_data_def)
  from generate_timetable_conflict_free [OF run rooms] cf run show ?thesis
    by (simp only: ex) simp
qed

section \<open>One assignment on a free grid\<close>

lemma find_room_fresh:
  assumes "\<forall>k \<in> dom ro. \<exists>s \<in> S. \<exists>r. room0 rooms = Some r \<and>
              k = occ_key r (ts_day_of_week s) (ts_period_number s)"
    and "\<forall>s \<in> S. 0 \<le> ts_day_of_week s \<and> (ts_day_of_week s \<noteq> day \<or> ts_period_number s \<noteq> pn)"
    and "0 \<le> day"
  shows "find_room ro rooms day pn = room0 rooms"
proof (cases rooms)
  case Nil
  then show ?thesis by (simp add: room0_def)
next
  case (Cons r rs)
  have "occ_key (c_id r) day pn \<notin> dom ro"
  proof
    assume "occ_key (c_id r) day pn \<in> dom ro"
    with assms(1) obtain s r' where s: "s \<in> S" and r': "room0 rooms = Some r'"
      and k: "occ_key (c_id r) day pn = occ_key r' (ts_day_of_week s) (ts_period_number s)"
      by blast
    from r' Cons have "r' = c_id r" by (simp add: room0_def)
    with k assms(2,3) s occ_key_inj [of day "ts_day_of_week s" "c_id r" pn "ts_period_number s"]
    show False by auto
  qed
  with Cons show ?thesis by (simp add: room0_def)
qed

lemma place_fresh:
  assumes inv: "fresh_inv (fa_faculty_id asgn) batch_id rooms st"
    and ins: "\<forall>tbl s. ins tbl s"
    and day: "0 \<le> day"
    and new: "\<forall>s \<in> set (created_slots st).
                ts_day_of_week s \<noteq> day \<or> ts_period_number s \<noteq> pt_period_number period"
  shows "\<exists>st'. place ins tenant_id batch_id asgn rooms day period (al, st) = (al + 1, st') \<and>
           created_slots st' = created_slots st @ [slot_data tenant_id batch_id asgn (room0 rooms) day period] \<and>
           gs_table st' = gs_table st @ [slot_data tenant_id batch_id asgn (room0 rooms) day period] \<and>
           fresh_inv (fa_faculty_id asgn) batch_id rooms st'"
proof -
  let ?pn = "pt_period_number period"
  let ?n = "slot_data tenant_id batch_id asgn (room0 rooms) day period"
  from inv have j1: "\<forall>k \<in> dom (faculty_occupied st). \<exists>s \<in> set (created_slots st).
          k = occ_key (fa_faculty_id asgn) (ts_day_of_week s) (ts_period_number s)"
    and j2: "\<forall>k \<in> dom (batch_occupied st). \<exists>s \<in> set (created_slots st).
          k = occ_key batch_id (ts_day_of_week s) (ts_period_number s)"
    and j3: "\<forall>k \<in> dom (room_occupied st). \<exists>s \<in> set (created_slots st). \<exists>r.
          room0 rooms = Some r \<and> k = occ_key r (ts_day_of_week s) (ts_period_number s)"
    and j4: "\<forall>s \<in> set (created_slots st). 0 \<le> ts_day_of_week s"
    by (simp_all add: fresh_inv_def)
  have free: "occ_key x day ?pn \<noteq> occ_key x (ts_day_of_week s) (ts_period_number s)"
    if "s \<in> set (created_slots st)" for x s
    using occ_key_inj [of day "ts_day_of_week s" x ?pn "ts_period_number s"] that day j4 new
    by auto
  have kf: "occ_key (fa_faculty_id asgn) day ?pn \<notin> dom (faculty_occupied st)"
    using j1 free by blast
  have kb: "occ_key batch_id day ?pn \<notin> dom (batch_occupied st)"
    using j2 free by blast
  have room: "find_room (room_occupied st) rooms day ?pn = room0 rooms"
    using j3 j4 new day by (intro find_room_fresh [where S = "set (created_slots st)"]) auto
  let ?st' = "st\<lparr> gs_table := gs_table st @ [?n], created_slots := created_slots st @ [?n],
      faculty_occupied := (faculty_occupied st)(occ_key (fa_faculty_id asgn) day ?pn \<mapsto> True),
      batch_occupied := (batch_occupied st)(occ_key batch_id day ?pn \<mapsto> True),
      room_occupied := (if truthy (room0 rooms)
         then (room_occupied st)(occ_key (the (room0 rooms)) day ?pn \<mapsto> True)
         else room_occupied st) \<rparr>"
  have eq: "place ins tenant_id batch_id asgn rooms day period (al, st) = (al + 1, ?st')"
    using kf kb ins by (simp add: place_def Let_def room)
  have n_fields: "ts_day_of_week ?n = day" "ts_period_number ?n = ?pn"
    by (simp_all add: slot_data_def)
  have "fresh_inv (fa_faculty_id asgn) batch_id rooms ?st'"
    unfolding fresh_inv_def
  proof (intro conjI ballI)
    fix k assume "k \<in> dom (faculty_occupied ?st')"
    then have "k = occ_key (fa_faculty_id asgn) day ?pn \<or> k \<in> dom (faculty_occupied st)"
      by (auto split: if_splits)
    with j1 n_fields show "\<exists>s \<in> set (created_slots ?st').
          k = occ_key (fa_faculty_id asgn) (ts_day_of_week s) (ts_period_number s)"
      by (simp add: Bex_def) metis
  next
    fix k assume "k \<in> dom (batch_occupied ?st')"
    then have "k = occ_key batch_id day ?pn \<or> k \<in> dom (batch_occupied st)"
      by (auto split: if_splits)
    with j2 n_fields show "\<exists>s \<in> set (created_slots ?st').
          k = occ_key batch_id (ts_day_of_week s) (ts_period_number s)"
      by (simp add: Bex_def) metis
  next
    fix k assume "k \<in> dom (room_occupied ?st')"
    then have "(\<exists>r. room0 rooms = Some r \<and> k = occ_key r day ?pn) \<or> k \<in> dom (room_occupied st)"
      by (auto simp: truthy_def split: if_splits option.splits)
    with j3 n_fields show "\<exists>s \<in> set (created_slots ?st'). \<exists>r.
          room0 rooms = Some r \<and> k = occ_key r (ts_day_of_week s) (ts_period_number s)"
      by (simp add: Bex_def) metis
  next
    fix s assume "s \<in> set (created_slots ?st')"
    with j4 day n_fields show "0 \<le> ts_day_of_week s" by auto
  qed
  with eq show ?thesis by (intro exI [of _ ?st']) simp
qed


lemma period_loop_fresh:
  assumes "fresh_inv (fa_faculty_id asgn) batch_id rooms st"
    and "\<forall>tbl s. ins tbl s"
    and "0 \<le> day"
    and "distinct (map pt_period_number ps)"
    and "\<forall>s \<in> set (created_slots st). \<forall>p \<in> set ps.
            ts_day_of_week s \<noteq> day \<or> ts_period_number s \<noteq> pt_period_number p"
  shows "\<exists>st'. period_loop ins tenant_id batch_id asgn h rooms day ps (al, st) =
            (al + int (length (take (nat (h - al))
                (map (slot_data tenant_id batch_id asgn (room0 rooms) day) ps))), st') \<and>
           created_slots st' = created_slots st @
              take (nat (h - al)) (map (slot_data tenant_id batch_id asgn (room0 rooms) day) ps) \<and>
           gs_table st' = gs_table st @
              take (nat (h - al)) (map (slot_data tenant_id batch_id asgn (room0 rooms) day) ps) \<and>
           fresh_inv (fa_faculty_id asgn) batch_id rooms st'"
  using assms
proof (induction ps arbitrary: al st)
  case Nil
  then show ?case by simp
next
  case (Cons p ps)
  let ?mk = "slot_data tenant_id batch_id asgn (room0 rooms) day"
  show ?case
  proof (cases "h \<le> al")
    case True
    with Cons.prems(1) show ?thesis by simp
  next
    case False
    from Cons.prems(5) have new: "\<forall>s \<in> set (created_slots st).
        ts_day_of_week s \<noteq> day \<or> ts_period_number s \<noteq> pt_period_number p"
      by simp
    from place_fresh [OF Cons.prems(1,2,3) new, of tenant_id al]
    obtain st1 where pl: "place ins tenant_id batch_id asgn rooms day p (al, st) = (al + 1, st1)"
      and c1: "created_slots st1 = created_slots st @ [?mk p]"
      and t1: "gs_table st1 = gs_table st @ [?mk p]"
      and i1: "fresh_inv (fa_faculty_id asgn) batch_id rooms st1"
      by blast
    have d: "distinct (map pt_period_number ps)" using Cons.prems(4) by simp
    have new1: "\<forall>s \<in> set (created_slots st1). \<forall>q \<in> set ps.
            ts_day_of_week s \<noteq> day \<or> ts_period_number s \<noteq> pt_period_number q"
      using Cons.prems(4,5) by (auto simp: c1 slot_data_def)
    from Cons.IH [OF i1 Cons.prems(2,3) d new1, of "al + 1"]
    obtain st2 where lp: "period_loop ins tenant_id batch_id asgn h rooms day ps (al + 1, st1) =
            (al + 1 + int (length (take (nat (h - (al + 1))) (map ?mk ps))), st2)"
      and c2: "created_slots st2 = created_slots st1 @ take (nat (h - (al + 1))) (map ?mk ps)"
      and t2: "gs_table st2 = gs_table st1 @ take (nat (h - (al + 1))) (map ?mk ps)"
      and i2: "fresh_inv (fa_faculty_id asgn) batch_id rooms st2"
      by blast
    from False have n: "nat (h - al) = Suc (nat (h - (al + 1)))" by simp
    show ?thesis
      using False by (intro exI [of _ st2]) (simp add: pl lp c1 c2 t1 t2 i2 n)
  qed
qed

lemma day_loop_fresh:
  assumes "fresh_inv (fa_faculty_id asgn) batch_id rooms st"
    and "\<forall>tbl s. ins tbl s"
    and "\<forall>d \<in> set ds. 0 \<le> d"
    and "distinct ds"
    and "distinct (map pt_period_number ps)"
    and "\<forall>s \<in> set (created_slots st). ts_day_of_week s \<notin> set ds"
  shows "\<exists>st'. day_loop ins tenant_id batch_id asgn h rooms ps ds (al, st) =
            (al + int (length (take (nat (h - al))
                (concat (map (\<lambda>d. map (slot_data tenant_id batch_id asgn (room0 rooms) d) ps) ds)))), st') \<and>
           created_slots st' = created_slots st @
              take (nat (h - al))
                (concat (map (\<lambda>d. map (slot_data tenant_id batch_id asgn (room0 rooms) d) ps) ds)) \<and>
           gs_table st' = gs_table st @
              take (nat (h - al))
                (concat (map (\<lambda>d. map (slot_data tenant_id batch_id asgn (room0 rooms) d) ps) ds)) \<and>
           fresh_inv (fa_faculty_id asgn) batch_id rooms st'"
  using assms
proof (induction ds arbitrary: al st)
  case Nil
  then show ?case by simp
next
  case (Cons d ds)
  let ?mk = "\<lambda>d. slot_data tenant_id batch_id asgn (room0 rooms) d"
  let ?row = "\<lambda>d. map (?mk d) ps"
  show ?case
  proof (cases "h \<le> al")
    case True
    with Cons.prems(1) show ?thesis by simp
  next
    case False
    have d0: "0 \<le> d" using Cons.prems(3) by simp
    have new: "\<forall>s \<in> set (created_slots st). \<forall>p \<in> set ps.
            ts_day_of_week s \<noteq> d \<or> ts_period_number s \<noteq> pt_period_number p"
      using Cons.prems(6) by auto
    from period_loop_fresh [OF Cons.prems(1,2) d0 Cons.prems(5) new, of tenant_id h al]
    obtain st1 where pl: "period_loop ins tenant_id batch_id asgn h rooms d ps (al, st) =
            (al + int (length (take (nat (h - al)) (?row d))), st1)"
      and c1: "created_slots st1 = created_slots st @ take (nat (h - al)) (?row d)"
      and t1: "gs_table st1 = gs_table st @ take (nat (h - al)) (?row d)"
      and i1: "fresh_inv (fa_faculty_id asgn) batch_id rooms st1"
      by blast
    let ?al1 = "al + int (length (take (nat (h - al)) (?row d)))"
    have ds0: "\<forall>d \<in> set ds. 0 \<le> d" and dd: "distinct ds" and dn: "d \<notin> set ds"
      using Cons.prems(3,4) by simp_all
    have new1: "\<forall>s \<in> set (created_slots st1). ts_day_of_week s \<notin> set ds"
      using Cons.prems(6) dn by (auto simp: c1 slot_data_def dest!: in_set_takeD)
    from Cons.IH [OF i1 Cons.prems(2) ds0 dd Cons.prems(5) new1, of ?al1]
    obtain st2 where lp: "day_loop ins tenant_id batch_id asgn h rooms ps ds (?al1, st1) =
            (?al1 + int (length (take (nat (h - ?al1)) (concat (map ?row ds)))), st2)"
      and c2: "created_slots st2 = created_slots st1 @ take (nat (h - ?al1)) (concat (map ?row ds))"
      and t2: "gs_table st2 = gs_table st1 @ take (nat (h - ?al1)) (concat (map ?row ds))"
      and i2: "fresh_inv (fa_faculty_id asgn) batch_id rooms st2"
      by blast
    have n: "nat (h - ?al1) = nat (h - al) - length (?row d)"
      using False by (simp add: min_def) linarith
    have tk: "take (nat (h - al)) (concat (map ?row (d # ds))) =
          take (nat (h - al)) (?row d) @ take (nat (h - ?al1)) (concat (map ?row ds))"
      by (simp only: n concat.simps list.map take_append)
    have step: "day_loop ins tenant_id batch_id asgn h rooms ps (d # ds) (al, st) =
          day_loop ins tenant_id batch_id asgn h rooms ps ds (?al1, st1)"
      using False by (simp add: pl)
    have res: "day_loop ins tenant_id batch_id asgn h rooms ps (d # ds) (al, st) =
          (?al1 + int (length (take (nat (h - ?al1)) (concat (map ?row ds)))), st2)"
      by (simp only: step lp)
    have len: "al + int (length (take (nat (h - al)) (concat (map ?row (d # ds))))) =
          ?al1 + int (length (take (nat (h - ?al1)) (concat (map ?row ds))))"
      by (simp only: tk length_append of_nat_add add.assoc)
    show ?thesis
    proof (intro exI [of _ st2] conjI)
      show "day_loop ins tenant_id batch_id asgn h rooms ps (d # ds) (al, st) =
          (al + int (length (take (nat (h - al)) (concat (map ?row (d # ds))))), st2)"
        unfolding len by (rule res)
      show "created_slots st2 = created_slots st @ take (nat (h - al)) (concat (map ?row (d # ds)))"
        by (simp only: c2 c1 tk append_assoc)
      show "gs_table st2 = gs_table st @ take (nat (h - al)) (concat (map ?row (d # ds)))"
        by (simp only: t2 t1 tk append_assoc)
      show "fresh_inv (fa_faculty_id asgn) batch_id rooms st2" by (rule i2)
    qed
  qed
qed


lemma clear_batch_free: "existing_slots d t = [] \<Longrightarrow> clear_batch d t b = d"
proof -
  assume "existing_slots d t = []"
  then have "\<forall>s \<in> set (timetable_slots d). ts_tenant_id s \<noteq> t"
    by (simp add: existing_slots_def filter_empty_conv)
  then have "filter (\<lambda>s. \<not> (ts_tenant_id s = t \<and> ts_batch_id s = b)) (timetable_slots d)
      = timetable_slots d"
    by (simp add: filter_id_conv)
  then show ?thesis by (simp add: clear_batch_def)
qed

lemma fresh_inv_start: "fresh_inv fid b rooms (index_existing tbl [])"
  by (simp add: fresh_inv_def index_existing_def)

lemma index_existing_Nil_fields:
  "created_slots (index_existing tbl []) = []" "gs_table (index_existing tbl []) = tbl"
  by (simp_all add: index_existing_def)

lemma length_grid:
  "length (concat (map (\<lambda>d. map (f d) ps) days)) = 6 * length ps"
  by (simp add: days_def)

lemma single_assignment_run:
  assumes admin: "u_role u = ''admin''"
    and tenant: "u_tenant_id u = Some t" "t \<noteq> []"
    and batch: "find (\<lambda>b. b_id b = tg_batch_id body \<and> b_tenant_id b = Some t) (batches d) = Some batch"
    and asgn: "selected_assignments d (Some t)
                 (semester_subject_ids d (Some t) (case b_semester batch of None \<Rightarrow> 1 | Some n \<Rightarrow> n)) = [a]"
    and hrs: "hrs_needed_of a = Some h"
    and periods: "selected_periods d (Some t) = ps" "ps \<noteq> []" "distinct (map pt_period_number ps)"
    and free: "existing_slots d (Some t) = []"
    and ins: "\<forall>tbl s. ins tbl s"
  shows "generate_timetable ins d u body =
      (Inr \<lparr> allocated_slots = length (take (nat h) (concat (map (\<lambda>day. map
                 (slot_data (Some t) (tg_batch_id body) a (room0 (available_rooms d (Some t))) day) ps) days))),
             total_assignments = 1,
             slots = take (nat h) (concat (map (\<lambda>day. map
                 (slot_data (Some t) (tg_batch_id body) a (room0 (available_rooms d (Some t))) day) ps) days)) \<rparr>,
       d\<lparr> timetable_slots := timetable_slots d @
             take (nat h) (concat (map (\<lambda>day. map
                 (slot_data (Some t) (tg_batch_id body) a (room0 (available_rooms d (Some t))) day) ps) days)) \<rparr>)"
proof -
  let ?b = "tg_batch_id body"
  let ?rooms = "available_rooms d (Some t)"
  let ?mk = "slot_data (Some t) ?b a (room0 ?rooms)"
  let ?xs = "take (nat h) (concat (map (\<lambda>day. map (?mk day) ps) days))"
  let ?st0 = "index_existing (timetable_slots d) []"
  have d1: "(if tg_force_regenerate body then clear_batch d (Some t) ?b else d) = d"
    using free by (simp add: clear_batch_free)
  have sub: "semester_subject_ids d (Some t) (case b_semester batch of None \<Rightarrow> 1 | Some n \<Rightarrow> n) \<noteq> []"
    using asgn by (auto simp: selected_assignments_def)
  have "\<forall>d \<in> set days. 0 \<le> d" "distinct days"
    "\<forall>s \<in> set (created_slots ?st0). ts_day_of_week s \<notin> set days"
    by (simp_all add: days_def index_existing_Nil_fields)
  from day_loop_fresh [where asgn = a and batch_id = ?b and rooms = ?rooms and st = ?st0
      and ins = ins and ds = days and ps = ps and tenant_id = "Some t" and h = h and al = 0,
      OF fresh_inv_start ins this(1,2) periods(3) this(3)]
  obtain st' where dl: "day_loop ins (Some t) ?b a h ?rooms ps days (0, ?st0) =
        (0 + int (length (take (nat (h - 0)) (concat (map (\<lambda>day. map (?mk day) ps) days)))), st')"
    and cr: "created_slots st' = created_slots ?st0 @
        take (nat (h - 0)) (concat (map (\<lambda>day. map (?mk day) ps) days))"
    and tb: "gs_table st' = gs_table ?st0 @
        take (nat (h - 0)) (concat (map (\<lambda>day. map (?mk day) ps) days))"
    by blast
  have cr': "created_slots st' = ?xs" and tb': "gs_table st' = timetable_slots d @ ?xs"
    using cr tb by (simp_all add: index_existing_Nil_fields)
  have run: "assign_loop ins (Some t) ?b ?rooms ps [a] ?st0 = (None, st')"
    by (simp add: hrs dl)
  show ?thesis
    using admin tenant batch sub periods(1,2)
    by (simp add: generate_timetable_def require_role_def get_tenant_id_def Let_def d1 asgn free
        run cr' tb' del: assign_loop.simps)
qed

text \<open>
  C9. An admin generates the timetable of a batch for which exactly one faculty assignment is
  selected, with \<open>hours_per_week\<close> 4; the non-break period templates \<open>ps\<close> are non-empty with
  pairwise different period numbers (six of them in the scenario), the tenant has no slot yet, and the
  store accepts every insert. Then exactly 4 slots are created: the first 4 candidates in the
  order day 1..6, then periods in template order, each in the first available room. With at
  least 4 periods they are the first 4 periods of day 1; with fewer, day 1 is filled and the
  next slot is on day 2.
\<close>

theorem single_assignment_four_hours:
  assumes admin: "u_role u = ''admin''"
    and tenant: "u_tenant_id u = Some t" "t \<noteq> []"
    and batch: "find (\<lambda>b. b_id b = tg_batch_id body \<and> b_tenant_id b = Some t) (batches d) = Some batch"
    and asgn: "selected_assignments d (Some t)
                 (semester_subject_ids d (Some t) (case b_semester batch of None \<Rightarrow> 1 | Some n \<Rightarrow> n)) = [a]"
    and hours: "fa_hours_per_week a = Val 4"
    and periods: "selected_periods d (Some t) = ps" "ps \<noteq> []" "distinct (map pt_period_number ps)"
    and free: "existing_slots d (Some t) = []"
    and ins: "\<forall>tbl s. ins tbl s"
  shows "let mk = slot_data (Some t) (tg_batch_id body) a (room0 (available_rooms d (Some t)));
             xs = take 4 (concat (map (\<lambda>day. map (mk day) ps) days))
         in generate_timetable ins d u body =
              (Inr \<lparr> allocated_slots = 4, total_assignments = 1, slots = xs \<rparr>,
               d\<lparr> timetable_slots := timetable_slots d @ xs \<rparr>) \<and>
            (4 \<le> length ps \<longrightarrow> xs = map (mk 1) (take 4 ps)) \<and>
            (length ps < 4 \<longrightarrow> take (length ps) xs = map (mk 1) ps \<and>
                                 ts_day_of_week (xs ! length ps) = 2)"
proof -
  let ?mk = "slot_data (Some t) (tg_batch_id body) a (room0 (available_rooms d (Some t)))"
  let ?xs = "take 4 (concat (map (\<lambda>day. map (?mk day) ps) days))"
  have hrs: "hrs_needed_of a = Some 4"
    using hours by (simp add: hrs_needed_of_def)
  have len: "length ?xs = 4"
  proof -
    from periods(2) have "1 \<le> length ps" by (cases ps) simp_all
    then have "4 \<le> 6 * length ps" by arith
    then show ?thesis by (simp only: length_take length_grid min_absorb2)
  qed
  have gen: "generate_timetable ins d u body =
      (Inr \<lparr> allocated_slots = 4, total_assignments = 1, slots = ?xs \<rparr>,
       d\<lparr> timetable_slots := timetable_slots d @ ?xs \<rparr>)"
    using single_assignment_run [OF admin tenant batch asgn hrs periods free ins] len
    by simp
  have day1: "?xs = map (?mk 1) (take 4 ps)" if "4 \<le> length ps"
    using that by (simp add: days_def take_map)
  have spill: "take (length ps) ?xs = map (?mk 1) ps \<and> ts_day_of_week (?xs ! length ps) = 2"
    if "length ps < 4"
  proof -
    from periods(2) obtain p ps' where ps: "ps = p # ps'" by (cases ps) auto
    have "?xs = map (?mk 1) ps @ take (4 - length ps) (map (?mk 2) ps @
        concat (map (\<lambda>day. map (?mk day) ps) [3, 4, 5, 6]))"
      using that by (simp add: days_def)
    then show ?thesis
      using that by (simp add: nth_append) (simp add: ps slot_data_def)
  qed
  from gen day1 spill show ?thesis by (simp add: Let_def)
qed

theorem single_assignment_four_hours_witness:
  "generate_timetable accept_all
      (ex_tt_db [ex_subject ''sub1'' ''p1'' 3] [ex_assignment ''f1'' ''sub1'' (Val 4)] ex_periods [])
      ex_admin \<lparr> tg_batch_id = ''b1'', tg_force_regenerate = False \<rparr>
   = (Inr \<lparr> allocated_slots = 4, total_assignments = 1,
            slots = map (slot_data (Some ''t1'') ''b1'' (ex_assignment ''f1'' ''sub1'' (Val 4))
                           (Some ''r1'') 1) (take 4 ex_periods) \<rparr>,
      ex_tt_db [ex_subject ''sub1'' ''p1'' 3] [ex_assignment ''f1'' ''sub1'' (Val 4)] ex_periods
        (map (slot_data (Some ''t1'') ''b1'' (ex_assignment ''f1'' ''sub1'' (Val 4))
                (Some ''r1'') 1) (take 4 ex_periods)))"
proof -
  let ?a = "ex_assignment ''f1'' ''sub1'' (Val 4)"
  let ?d = "ex_tt_db [ex_subject ''sub1'' ''p1'' 3] [?a] ex_periods []"
  let ?body = "\<lparr> tg_batch_id = ''b1'', tg_force_regenerate = False \<rparr>"
  let ?batch = "\<lparr> b_id = ''b1'', b_tenant_id = Some ''t1'', b_program_id = ''p1'', b_semester = Some 3 \<rparr>"
  have h1: "u_role ex_admin = ''admin''" and h2: "u_tenant_id ex_admin = Some ''t1''"
    and h3: "''t1'' \<noteq> []"
    by (simp_all add: ex_admin_def)
  have h4: "find (\<lambda>b. b_id b = tg_batch_id ?body \<and> b_tenant_id b = Some ''t1'') (batches ?d) = Some ?batch"
    by (simp add: ex_tt_db_def)
  have h5: "selected_assignments ?d (Some ''t1'')
      (semester_subject_ids ?d (Some ''t1'') (case b_semester ?batch of None \<Rightarrow> 1 | Some n \<Rightarrow> n)) = [?a]"
    by (simp add: selected_assignments_def semester_subject_ids_def ex_tt_defs)
  have h6: "fa_hours_per_week ?a = Val 4" by (simp add: ex_assignment_def)
  have h7: "selected_periods ?d (Some ''t1'') = ex_periods"
    by (simp add: selected_periods_def ex_tt_defs)
  have h8: "ex_periods \<noteq> []" and h9: "distinct (map pt_period_number ex_periods)"
    by (simp_all add: ex_periods_def ex_period_def)
  have h10: "existing_slots ?d (Some ''t1'') = []" by (simp add: existing_slots_def ex_tt_db_def)
  have h11: "\<forall>tbl s. accept_all tbl s" by (simp add: accept_all_def)
  have rooms: "room0 (available_rooms ?d (Some ''t1'')) = Some ''r1''"
    by (simp add: room0_def available_rooms_def ex_tt_defs)
  have len: "4 \<le> length ex_periods" by (simp add: ex_periods_def)
  have upd: "?d\<lparr> timetable_slots := timetable_slots ?d @ xs \<rparr> =
      ex_tt_db [ex_subject ''sub1'' ''p1'' 3] [?a] ex_periods xs" for xs
    by (simp add: ex_tt_db_def)
  from single_assignment_four_hours [OF h1 h2 h3 h4 h5 h6 h7 h8 h9 h10 h11] len
  show ?thesis
    by (simp add: Let_def rooms upd)
qed

section \<open>Subjects are selected by semester number alone\<close>







section \<open>Regeneration deletes before it validates\<close>

text \<open>What does hold: an absent batch is reported before anything is written, and without
  \<open>force_regenerate\<close> a call that ends in an HTTP error has written nothing.\<close>

lemma generate_timetable_batch_not_found:
  assumes "u_role u = ''admin''" "u_tenant_id u = Some t" "t \<noteq> []"
    and "find (\<lambda>b. b_id b = tg_batch_id body \<and> b_tenant_id b = Some t) (batches d) = None"
  shows "generate_timetable ins d u body = (Inl (HTTPException 404 ''Batch not found''), d)"
  using assms by (simp add: generate_timetable_def require_role_def get_tenant_id_def)

lemma assign_loop_error:
  "fst (assign_loop ins t b rooms ps asgns st) = Some e \<Longrightarrow> e = TypeError"
  by (induction asgns arbitrary: st) (auto split: option.splits)

lemma generate_timetable_http_error_unforced:
  assumes "generate_timetable ins d u body = (Inl (HTTPException code msg), d')"
    and "\<not> tg_force_regenerate body"
  shows "d' = d"
  using assms
  by (auto simp: generate_timetable_def Let_def
      split: sum.splits option.splits if_splits dest: assign_loop_error
      simp del: assign_loop.simps)

text \<open>
  C3. With \<open>force_regenerate\<close> set, the batch's slots are deleted right after the batch was
  found, before the subjects and the period templates are looked up. Batch \<open>b1\<close> has one slot;
  the call fails with "No subjects found" (respectively "No period templates set up"), and the
  slot is gone.
\<close>

theorem regenerate_deletes_before_failing:
  "generate_timetable accept_all
      (ex_tt_db [] [] ex_periods
         [ex_slot ''b1'' ''sub1'' ''f1'' (Some ''r1'') 1 (ex_period 1 ''09:00'' ''09:50'')])
      ex_admin \<lparr> tg_batch_id = ''b1'', tg_force_regenerate = True \<rparr>
   = (Inl (HTTPException 400 (''No subjects found for this batch'' @ [CHR 0x27] @ ''s semester'')),
      ex_tt_db [] [] ex_periods []) \<and>
   generate_timetable accept_all
      (ex_tt_db [ex_subject ''sub1'' ''p1'' 3] [ex_assignment ''f1'' ''sub1'' (Val 4)] []
         [ex_slot ''b1'' ''sub1'' ''f1'' (Some ''r1'') 1 (ex_period 1 ''09:00'' ''09:50'')])
      ex_admin \<lparr> tg_batch_id = ''b1'', tg_force_regenerate = True \<rparr>
   = (Inl (HTTPException 400 ''No period templates set up''),
      ex_tt_db [ex_subject ''sub1'' ''p1'' 3] [ex_assignment ''f1'' ''sub1'' (Val 4)] [] [])"
  by (simp add: run_defs ex_tt_defs)

end
